theory Spec2Isabelle
  imports Main "HOL-Library.Word" "HOL-Library.Sublist" "HOL-Library.Log_Nat"
begin

section \<open>OpenImageIO unittest.h: failure counter and non-fatal check macros\<close>

text \<open>
  The header \<^verbatim>\<open>src/include/OpenImageIO/unittest.h\<close> defines a failure counter,
  a family of check macros that print a diagnostic and bump the counter when their
  predicate is false, the relative-tolerance predicate \<^verbatim>\<open>pvt::equal_approx\<close>, and an
  output operator for \<^verbatim>\<open>std::vector\<close>.

  Standard output is a \<open>string\<close> that grows at its end; the global counter and the
  output together are the state every macro transforms. A macro argument is a pair of
  its source text (what \<^verbatim>\<open>#x\<close> gives) and its value (what \<^verbatim>\<open>(x)\<close> gives); the
  argument expressions are taken to be pure, so evaluating one twice gives one value.
\<close>

subsection \<open>Characters and decimal output\<close>

abbreviation NL :: string where
  "NL \<equiv> [CHR 0x0A]"

abbreviation TAB :: string where
  "TAB \<equiv> [CHR 0x09]"

abbreviation QUOTE :: string where
  "QUOTE \<equiv> [CHR 0x27]"

text \<open>What \<^verbatim>\<open>std::cout << n\<close> writes for a non-negative integer (the value of
  \<^verbatim>\<open>__LINE__\<close>), and for a signed one.\<close>

definition digit :: "nat \<Rightarrow> char" where
  "digit d = ''0123456789'' ! d"

fun decimal :: "nat \<Rightarrow> string" where
  "decimal n = (if 10 \<le> n then decimal (n div 10) @ [digit (n mod 10)] else [digit n])"

definition decimal_int :: "int \<Rightarrow> string" where
  "decimal_int k = (if 0 \<le> k then decimal (nat k) else CHR ''-'' # decimal (nat (- k)))"

subsection \<open>The failure counter (lines 60--90)\<close>

text \<open>
  \<^verbatim>\<open>m_failures\<close> is a C++ \<^verbatim>\<open>int\<close>: a 32-bit word read as two's complement by
  \<open>sint\<close>. Signed overflow is undefined in C++; the model gives it the wrap-around
  the hardware addition has, and the theorems that speak of the count as a number say
  where they need the absence of overflow.
\<close>

record UnitTestFailureCounter =
  m_failures :: "32 word"

definition INT_MAX :: int where
  "INT_MAX = 2147483647"

text \<open>The constructor: \<^verbatim>\<open>m_failures(0)\<close>.\<close>

definition UnitTestFailureCounter_init :: UnitTestFailureCounter where
  "UnitTestFailureCounter_init = \<lparr>m_failures = 0\<rparr>"

text \<open>\<^verbatim>\<open>operator++()\<close>: \<^verbatim>\<open>++m_failures; return *this;\<close>. The result is a reference to
  the object itself, so the updated counter is all there is to return.\<close>

definition prefix_increment :: "UnitTestFailureCounter \<Rightarrow> UnitTestFailureCounter" where
  "prefix_increment c = c\<lparr>m_failures := m_failures c + 1\<rparr>"

text \<open>\<^verbatim>\<open>operator++(int)\<close>: \<^verbatim>\<open>return m_failures++;\<close>. The pair is the returned (old)
  value and the updated counter.\<close>

definition postfix_increment :: "UnitTestFailureCounter \<Rightarrow> int \<times> UnitTestFailureCounter" where
  "postfix_increment c = (sint (m_failures c), c\<lparr>m_failures := m_failures c + 1\<rparr>)"

text \<open>\<^verbatim>\<open>operator+=(int i)\<close>: \<^verbatim>\<open>m_failures += i; return *this;\<close>. The return type is
  \<^verbatim>\<open>UnitTestFailureCounter\<close> by value, so the first component is the copy handed
  back to the caller and the second the updated counter.\<close>

definition add_assign ::
  "UnitTestFailureCounter \<Rightarrow> 32 word \<Rightarrow> UnitTestFailureCounter \<times> UnitTestFailureCounter" where
  "add_assign c i = (let c' = c\<lparr>m_failures := m_failures c + i\<rparr> in (c', c'))"

text \<open>\<^verbatim>\<open>operator int()\<close>: \<^verbatim>\<open>return m_failures;\<close>.\<close>

definition to_int :: "UnitTestFailureCounter \<Rightarrow> int" where
  "to_int c = sint (m_failures c)"

subsection \<open>The terminal, the call site, the state\<close>

text \<open>
  \<^verbatim>\<open>Sysutil::Term(std::cout)\<close> is declared in \<^verbatim>\<open>sysutil.h\<close>, not in this header.
  Its two \<^verbatim>\<open>ansi\<close> members are parameters of the model:
  \<open>ansi t cmd\<close> is the escape sequence for a command (empty when the output is not a
  terminal) and \<open>ansi_text t cmd txt\<close> is a text wrapped in the command's colour.
\<close>

record terminal =
  ansi :: "string \<Rightarrow> string"
  ansi_text :: "string \<Rightarrow> string \<Rightarrow> string"

text \<open>The call site of a macro: the values of \<^verbatim>\<open>__FILE__\<close> and \<^verbatim>\<open>__LINE__\<close>.\<close>

record location =
  FILE :: string
  LINE :: nat

text \<open>A macro argument: its source text and its value.\<close>

datatype 'a expr = Expr (src: string) (val: 'a)

text \<open>Standard output written so far, and the global \<^verbatim>\<open>unit_test_failures\<close> (line 116).\<close>

record test_state =
  cout :: string
  unit_test_failures :: UnitTestFailureCounter

definition initial_state :: test_state where
  "initial_state = \<lparr>cout = [], unit_test_failures = UnitTestFailureCounter_init\<rparr>"

text \<open>The destructor (lines 66--74), as what it writes and the status it hands to
  \<^verbatim>\<open>std::exit\<close>, if it calls it. \<^verbatim>\<open>std::exit(m_failures != 0)\<close> converts the truth
  value of the comparison to an \<^verbatim>\<open>int\<close>.\<close>

definition destructor :: "terminal \<Rightarrow> UnitTestFailureCounter \<Rightarrow> string \<times> int option" where
  "destructor t c =
     (if m_failures c \<noteq> 0
      then (ansi_text t ''red'' (''ERRORS!'' @ NL), Some (if m_failures c \<noteq> 0 then 1 else 0))
      else (ansi_text t ''green'' (''OK'' @ NL), None))"

text \<open>Normal termination of the process: \<open>main\<close> has returned the status \<open>rc\<close>, the
  static counter is destroyed, and the process ends with the status of the destructor's
  \<^verbatim>\<open>std::exit\<close> call if it made one and with \<open>rc\<close> otherwise. (The C++ standard
  leaves \<^verbatim>\<open>std::exit\<close> during static destruction undefined; this is what the common
  runtimes do.) The result is the complete standard output and the exit status.\<close>

definition normal_termination :: "terminal \<Rightarrow> int \<Rightarrow> test_state \<Rightarrow> string \<times> int" where
  "normal_termination t rc s =
     (case destructor t (unit_test_failures s) of
        (msg, Some status) \<Rightarrow> (cout s @ msg, status)
      | (msg, None) \<Rightarrow> (cout s @ msg, rc))"

subsection \<open>The check macros (lines 124--253)\<close>

text \<open>The text every macro starts its diagnostic with:
  \<^verbatim>\<open>ansi("red,bold") << __FILE__ << ":" << __LINE__ << ":\n" << "FAILED: " << ansi("normal")\<close>.\<close>

definition failed_header :: "terminal \<Rightarrow> location \<Rightarrow> string" where
  "failed_header t loc =
     ansi t ''red,bold'' @ FILE loc @ '':'' @ decimal (LINE loc) @ '':'' @ NL
       @ ''FAILED: '' @ ansi t ''normal''"

text \<open>\<^verbatim>\<open>"\tvalues were '" << (x) << "' and '" << (y) << "'"\<close>, with the output operator
  of the operands' type as \<open>shw\<close>.\<close>

definition values_were :: "('a \<Rightarrow> string) \<Rightarrow> 'a expr \<Rightarrow> 'a expr \<Rightarrow> string" where
  "values_were shw x y =
     TAB @ ''values were '' @ QUOTE @ shw (val x) @ QUOTE @ '' and '' @ QUOTE @ shw (val y) @ QUOTE"

text \<open>The false branch of every macro, \<^verbatim>\<open>((std::cout << ...), (void)++unit_test_failures)\<close>:
  the message is written, then the counter is incremented in prefix form.\<close>

definition record_failure :: "string \<Rightarrow> test_state \<Rightarrow> test_state" where
  "record_failure msg s =
     s\<lparr>cout := cout s @ msg, unit_test_failures := prefix_increment (unit_test_failures s)\<rparr>"

definition OIIO_CHECK_ASSERT :: "terminal \<Rightarrow> location \<Rightarrow> bool expr \<Rightarrow> test_state \<Rightarrow> test_state" where
  "OIIO_CHECK_ASSERT t loc x s =
     (if val x then s
      else record_failure (failed_header t loc @ src x @ NL) s)"

definition OIIO_CHECK_EQUAL ::
  "terminal \<Rightarrow> ('a \<Rightarrow> string) \<Rightarrow> location \<Rightarrow> 'a expr \<Rightarrow> 'a expr \<Rightarrow> test_state \<Rightarrow> test_state" where
  "OIIO_CHECK_EQUAL t shw loc x y s =
     (if val x = val y then s
      else record_failure
        (failed_header t loc @ src x @ '' == '' @ src y @ NL @ values_were shw x y @ NL) s)"

text \<open>
  The third argument of \<^verbatim>\<open>OIIO_CHECK_EQUAL_THRESH\<close> is pasted into the condition without
  parentheses (line 146: \<^verbatim>\<open><= eps\<close>; line 244 of the SIMD macro has \<^verbatim>\<open>< (eps)\<close>), so
  how the condition is read depends on the argument's outermost operator. Two forms of
  the argument are told apart: \<open>Tight e\<close> is an expression that binds tighter than
  \<^verbatim>\<open><=\<close> (a literal, a name, a call, a sum, anything in parentheses), with value \<open>e\<close>;
  \<open>Conditional c a b\<close> is \<^verbatim>\<open>c ? a : b\<close> written without parentheses.
\<close>

datatype 'a tolerance = Tight 'a | Conditional bool 'a 'a

text \<open>The value of the argument expression.\<close>

fun tolerance_value :: "'a tolerance \<Rightarrow> 'a" where
  "tolerance_value (Tight e) = e"
| "tolerance_value (Conditional c a b) = (if c then a else b)"

text \<open>\<^verbatim>\<open>d <= eps\<close> after the substitution, for \<open>d\<close> the value of
  \<^verbatim>\<open>std::abs((x) - (y))\<close>. With \<^verbatim>\<open>c ? a : b\<close> for \<^verbatim>\<open>eps\<close> the text is
  \<^verbatim>\<open>d <= c ? a : b\<close>, which C++ reads as \<^verbatim>\<open>(d <= c) ? a : b\<close>: the \<^verbatim>\<open>bool\<close> \<open>c\<close>
  is converted to the operands' type for the comparison, and the branch selected is
  converted to \<^verbatim>\<open>bool\<close> (non-zero is true) as the condition of the macro's \<^verbatim>\<open>?:\<close>.\<close>

fun thresh_condition :: "('a::{ord,zero_neq_one}) \<Rightarrow> 'a tolerance \<Rightarrow> bool" where
  "thresh_condition d (Tight e) = (d \<le> e)"
| "thresh_condition d (Conditional c a b) = ((if d \<le> of_bool c then a else b) \<noteq> 0)"

definition OIIO_CHECK_EQUAL_THRESH ::
  "terminal \<Rightarrow> ('a \<Rightarrow> string) \<Rightarrow> location \<Rightarrow> 'a expr \<Rightarrow> 'a expr
     \<Rightarrow> ('a::{minus,abs,ord,zero_neq_one}) tolerance \<Rightarrow> test_state \<Rightarrow> test_state" where
  "OIIO_CHECK_EQUAL_THRESH t shw loc x y eps s =
     (if thresh_condition \<bar>val x - val y\<bar> eps then s
      else record_failure
        (failed_header t loc @ src x @ '' == '' @ src y @ NL @ values_were shw x y
           @ '', diff was '' @ shw \<bar>val x - val y\<bar> @ NL) s)"

definition OIIO_CHECK_NE ::
  "terminal \<Rightarrow> ('a \<Rightarrow> string) \<Rightarrow> location \<Rightarrow> 'a expr \<Rightarrow> 'a expr \<Rightarrow> test_state \<Rightarrow> test_state" where
  "OIIO_CHECK_NE t shw loc x y s =
     (if val x \<noteq> val y then s
      else record_failure
        (failed_header t loc @ src x @ '' != '' @ src y @ NL @ values_were shw x y @ NL) s)"

definition OIIO_CHECK_LT ::
  "terminal \<Rightarrow> ('a \<Rightarrow> string) \<Rightarrow> location \<Rightarrow> 'a expr \<Rightarrow> ('a::ord) expr \<Rightarrow> test_state \<Rightarrow> test_state" where
  "OIIO_CHECK_LT t shw loc x y s =
     (if val x < val y then s
      else record_failure
        (failed_header t loc @ src x @ '' < '' @ src y @ NL @ values_were shw x y @ NL) s)"

definition OIIO_CHECK_GT ::
  "terminal \<Rightarrow> ('a \<Rightarrow> string) \<Rightarrow> location \<Rightarrow> 'a expr \<Rightarrow> ('a::ord) expr \<Rightarrow> test_state \<Rightarrow> test_state" where
  "OIIO_CHECK_GT t shw loc x y s =
     (if val x > val y then s
      else record_failure
        (failed_header t loc @ src x @ '' > '' @ src y @ NL @ values_were shw x y @ NL) s)"

definition OIIO_CHECK_LE ::
  "terminal \<Rightarrow> ('a \<Rightarrow> string) \<Rightarrow> location \<Rightarrow> 'a expr \<Rightarrow> ('a::ord) expr \<Rightarrow> test_state \<Rightarrow> test_state" where
  "OIIO_CHECK_LE t shw loc x y s =
     (if val x \<le> val y then s
      else record_failure
        (failed_header t loc @ src x @ '' <= '' @ src y @ NL @ values_were shw x y @ NL) s)"

definition OIIO_CHECK_GE ::
  "terminal \<Rightarrow> ('a \<Rightarrow> string) \<Rightarrow> location \<Rightarrow> 'a expr \<Rightarrow> ('a::ord) expr \<Rightarrow> test_state \<Rightarrow> test_state" where
  "OIIO_CHECK_GE t shw loc x y s =
     (if val x \<ge> val y then s
      else record_failure
        (failed_header t loc @ src x @ '' >= '' @ src y @ NL @ values_were shw x y @ NL) s)"

subsection \<open>Floating-point arithmetic\<close>

text \<open>
  A \<^verbatim>\<open>float\<close> is an IEEE 754 binary32 value and a \<^verbatim>\<open>double\<close> a binary64 value: a
  rational with a significand of 24 (53) bits and an exponent from \<open>-126\<close> (\<open>-1022\<close>)
  to 127 (1023), an infinity, or a NaN. The sign of a zero is left out: no comparison
  sees it. Every operation computes the exact result and rounds it to the nearest
  representable value, ties to the even significand (the default rounding mode, with
  expressions evaluated in the type they have).
\<close>

datatype ieee = Finite rat | PInf | NInf | NaN

type_synonym f32 = ieee

type_synonym f64 = ieee

text \<open>The nearest integer, ties to even.\<close>

definition round_half_even :: "rat \<Rightarrow> int" where
  "round_half_even r =
     (let f = \<lfloor>r\<rfloor>; d = r - of_int f
      in if d < 1 / 2 then f else if 1 / 2 < d then f + 1 else if even f then f else f + 1)"

text \<open>For \<open>0 < q\<close>, the exponent \<open>e\<close> with \<open>2 powi e \<le> q < 2 powi (e + 1)\<close>.\<close>

definition ilog2 :: "rat \<Rightarrow> int" where
  "ilog2 q = (if 1 \<le> q then bitlen \<lfloor>q\<rfloor> - 1 else - bitlen (\<lceil>1 / q\<rceil> - 1))"

text \<open>Rounding a positive magnitude to \<open>p\<close> significant bits with least exponent
  \<open>emin\<close>. The spacing of the representable values around \<open>a\<close> is
  \<open>2 powi (e - (p - 1))\<close> for the exponent \<open>e\<close> of \<open>a\<close>, and \<open>2 powi (emin - (p - 1))\<close>
  below the normal range.\<close>

definition round_magnitude_to :: "int \<Rightarrow> int \<Rightarrow> rat \<Rightarrow> rat" where
  "round_magnitude_to p emin a =
     (let e = max (ilog2 a) emin; u = 2 powi (e - (p - 1))
      in of_int (round_half_even (a / u)) * u)"

text \<open>Rounding to a format: a result of magnitude \<open>2 ^ emax\<close> or more is an
  infinity.\<close>

definition round_to :: "int \<Rightarrow> int \<Rightarrow> nat \<Rightarrow> rat \<Rightarrow> ieee" where
  "round_to p emin emax q =
     (if q = 0 then Finite 0
      else let r = round_magnitude_to p emin \<bar>q\<bar>
           in if 2 ^ emax \<le> r then (if 0 < q then PInf else NInf)
              else Finite (sgn q * r))"

text \<open>binary32 and binary64.\<close>

definition round_magnitude :: "rat \<Rightarrow> rat" where
  "round_magnitude a = round_magnitude_to 24 (- 126) a"

definition round32 :: "rat \<Rightarrow> f32" where
  "round32 q = round_to 24 (- 126) 128 q"

definition round64 :: "rat \<Rightarrow> f64" where
  "round64 q = round_to 53 (- 1022) 1024 q"

text \<open>A rational is a \<^verbatim>\<open>float\<close> (\<^verbatim>\<open>double\<close>) value when rounding leaves it alone.\<close>

definition representable :: "rat \<Rightarrow> bool" where
  "representable q = (round32 q = Finite q)"

definition representable64 :: "rat \<Rightarrow> bool" where
  "representable64 q = (round64 q = Finite q)"

text \<open>\<^verbatim>\<open>x - y\<close> in a floating-point type with rounding \<open>rnd\<close>, and \<^verbatim>\<open>x * y\<close> on
  \<^verbatim>\<open>float\<close>.\<close>

fun ieee_minus :: "(rat \<Rightarrow> ieee) \<Rightarrow> ieee \<Rightarrow> ieee \<Rightarrow> ieee" where
  "ieee_minus rnd NaN _ = NaN"
| "ieee_minus rnd _ NaN = NaN"
| "ieee_minus rnd (Finite a) (Finite b) = rnd (a - b)"
| "ieee_minus rnd (Finite a) PInf = NInf"
| "ieee_minus rnd (Finite a) NInf = PInf"
| "ieee_minus rnd PInf PInf = NaN"
| "ieee_minus rnd PInf _ = PInf"
| "ieee_minus rnd NInf NInf = NaN"
| "ieee_minus rnd NInf _ = NInf"

definition fsub :: "f32 \<Rightarrow> f32 \<Rightarrow> f32" where
  "fsub x y = ieee_minus round32 x y"

definition dsub :: "f64 \<Rightarrow> f64 \<Rightarrow> f64" where
  "dsub x y = ieee_minus round64 x y"

fun fmul :: "f32 \<Rightarrow> f32 \<Rightarrow> f32" where
  "fmul NaN _ = NaN"
| "fmul _ NaN = NaN"
| "fmul (Finite a) (Finite b) = round32 (a * b)"
| "fmul (Finite a) PInf = (if a = 0 then NaN else if 0 < a then PInf else NInf)"
| "fmul (Finite a) NInf = (if a = 0 then NaN else if 0 < a then NInf else PInf)"
| "fmul PInf (Finite b) = (if b = 0 then NaN else if 0 < b then PInf else NInf)"
| "fmul NInf (Finite b) = (if b = 0 then NaN else if 0 < b then NInf else PInf)"
| "fmul PInf PInf = PInf"
| "fmul PInf NInf = NInf"
| "fmul NInf PInf = NInf"
| "fmul NInf NInf = PInf"

text \<open>\<^verbatim>\<open>x < y\<close> and \<^verbatim>\<open>x <= y\<close> on \<^verbatim>\<open>float\<close>: false whenever an operand is a NaN.\<close>

fun flt :: "f32 \<Rightarrow> f32 \<Rightarrow> bool" where
  "flt NaN _ = False"
| "flt _ NaN = False"
| "flt (Finite a) (Finite b) = (a < b)"
| "flt (Finite a) PInf = True"
| "flt (Finite a) NInf = False"
| "flt PInf _ = False"
| "flt NInf NInf = False"
| "flt NInf _ = True"

fun fle :: "f32 \<Rightarrow> f32 \<Rightarrow> bool" where
  "fle NaN _ = False"
| "fle _ NaN = False"
| "fle (Finite a) (Finite b) = (a \<le> b)"
| "fle (Finite a) PInf = True"
| "fle (Finite a) NInf = False"
| "fle PInf PInf = True"
| "fle PInf _ = False"
| "fle NInf _ = True"

text \<open>\<^verbatim>\<open>std::abs\<close> on \<^verbatim>\<open>float\<close>, and \<^verbatim>\<open>std::max(a, b)\<close>, which is
  \<^verbatim>\<open>(a < b) ? b : a\<close>.\<close>

fun std_abs :: "f32 \<Rightarrow> f32" where
  "std_abs (Finite a) = Finite \<bar>a\<bar>"
| "std_abs PInf = PInf"
| "std_abs NInf = PInf"
| "std_abs NaN = NaN"

definition std_max :: "f32 \<Rightarrow> f32 \<Rightarrow> f32" where
  "std_max a b = (if flt a b then b else a)"

text \<open>Lines 44--56: \<^verbatim>\<open>simd::abs(float)\<close> and \<^verbatim>\<open>simd::max(float, float)\<close>.\<close>

definition simd_abs :: "f32 \<Rightarrow> f32" where
  "simd_abs x = std_abs x"

definition simd_max :: "f32 \<Rightarrow> f32 \<Rightarrow> f32" where
  "simd_max x y = std_max x y"

text \<open>The literal \<^verbatim>\<open>0.001f\<close>: the decimal rounded to \<^verbatim>\<open>float\<close>.\<close>

definition literal_0_001f :: f32 where
  "literal_0_001f = round32 (1 / 1000)"

subsection \<open>Operands of \<^verbatim>\<open>equal_approx\<close> (lines 93--99)\<close>

text \<open>
  \<^verbatim>\<open>equal_approx\<close> is a template over the types \<^verbatim>\<open>X\<close> and \<^verbatim>\<open>Y\<close> of its operands. A
  numeric operand is a value of one of the arithmetic types \<^verbatim>\<open>float\<close>, \<^verbatim>\<open>double\<close>,
  \<^verbatim>\<open>int\<close> and \<^verbatim>\<open>unsigned\<close>, both of 32 bits as for the counter. An \<^verbatim>\<open>unsigned\<close>
  subtraction is modulo \<open>2 ^ 32\<close> by the language; for an \<^verbatim>\<open>int\<close> subtraction that
  overflows, which the language leaves undefined, the embedding takes the two's
  complement result.
\<close>

datatype number = FloatV f32 | DoubleV f64 | IntV "32 word" | UnsignedV "32 word"

text \<open>The conversions between the arithmetic types: to \<^verbatim>\<open>double\<close> (exact from each of the
  other three) and to \<^verbatim>\<open>float\<close> (rounding).\<close>

fun to_double :: "number \<Rightarrow> f64" where
  "to_double (FloatV v) = v"
| "to_double (DoubleV v) = v"
| "to_double (IntV w) = Finite (of_int (sint w))"
| "to_double (UnsignedV w) = Finite (of_int (uint w))"

fun double_to_float :: "f64 \<Rightarrow> f32" where
  "double_to_float (Finite q) = round32 q"
| "double_to_float v = v"

fun to_float :: "number \<Rightarrow> f32" where
  "to_float (FloatV v) = v"
| "to_float (DoubleV v) = double_to_float v"
| "to_float (IntV w) = round32 (of_int (sint w))"
| "to_float (UnsignedV w) = round32 (of_int (uint w))"

text \<open>\<^verbatim>\<open>(x) - (y)\<close>: the usual arithmetic conversions bring both operands to a common
  type (\<^verbatim>\<open>double\<close> if one is, else \<^verbatim>\<open>float\<close> if one is, else \<^verbatim>\<open>unsigned\<close> if one is,
  else \<^verbatim>\<open>int\<close>; \<^verbatim>\<open>int\<close> to \<^verbatim>\<open>unsigned\<close> keeps the bits), and the subtraction is the one
  of that type: rounded in the floating-point types, modulo \<open>2 ^ 32\<close> in the integer
  types.\<close>

fun difference :: "number \<Rightarrow> number \<Rightarrow> number" where
  "difference (DoubleV a) y = DoubleV (dsub a (to_double y))"
| "difference x (DoubleV b) = DoubleV (dsub (to_double x) b)"
| "difference (FloatV a) y = FloatV (fsub a (to_float y))"
| "difference x (FloatV b) = FloatV (fsub (to_float x) b)"
| "difference (UnsignedV a) (UnsignedV b) = UnsignedV (a - b)"
| "difference (UnsignedV a) (IntV b) = UnsignedV (a - b)"
| "difference (IntV a) (UnsignedV b) = UnsignedV (a - b)"
| "difference (IntV a) (IntV b) = IntV (a - b)"

text \<open>Whether the common type of two operands is \<^verbatim>\<open>unsigned\<close>.\<close>

fun unsigned_common :: "number \<Rightarrow> number \<Rightarrow> bool" where
  "unsigned_common (UnsignedV a) (UnsignedV b) = True"
| "unsigned_common (UnsignedV a) (IntV b) = True"
| "unsigned_common (IntV a) (UnsignedV b) = True"
| "unsigned_common _ _ = False"

text \<open>The zero of each type.\<close>

fun is_zero :: "number \<Rightarrow> bool" where
  "is_zero (FloatV v) = (v = Finite 0)"
| "is_zero (DoubleV v) = (v = Finite 0)"
| "is_zero (IntV w) = (w = 0)"
| "is_zero (UnsignedV w) = (w = 0)"

text \<open>Modelled from the spec: the overload of \<^verbatim>\<open>all\<close> for a single \<^verbatim>\<open>bool\<close>, declared
  in \<^verbatim>\<open>simd.h\<close>. The spec gives the comparison itself as the predicate of the scalar
  check, so \<^verbatim>\<open>all\<close> of one truth value is that value.\<close>

definition all_bool :: "bool \<Rightarrow> bool" where
  "all_bool b = b"

text \<open>
  Lines 93--99:
  \<^verbatim>\<open>using namespace simd; return all(abs((x) - (y)) <= 0.001f * max(abs(x), abs(y)));\<close>
  For operands of arithmetic type the names \<^verbatim>\<open>abs\<close> and \<^verbatim>\<open>max\<close> are the functions of
  lines 44--56 ("force a float-based abs and max to appear in namespace simd"), whose
  parameters are \<^verbatim>\<open>float\<close>: the difference, computed in the operands' type, and each
  operand are converted to \<^verbatim>\<open>float\<close> on the way in. The product and the comparison are
  in \<^verbatim>\<open>float\<close>.
\<close>

definition equal_approx :: "number \<Rightarrow> number \<Rightarrow> bool" where
  "equal_approx x y =
     all_bool (fle (simd_abs (to_float (difference x y)))
                   (fmul literal_0_001f (simd_max (simd_abs (to_float x)) (simd_abs (to_float y)))))"

definition OIIO_CHECK_EQUAL_APPROX ::
  "terminal \<Rightarrow> (number \<Rightarrow> string) \<Rightarrow> location \<Rightarrow> number expr \<Rightarrow> number expr
     \<Rightarrow> test_state \<Rightarrow> test_state" where
  "OIIO_CHECK_EQUAL_APPROX t shw loc x y s =
     (if equal_approx (val x) (val y) then s
      else record_failure
        (failed_header t loc @ src x @ '' == '' @ src y @ NL @ values_were shw x y
           @ '', diff was '' @ shw (difference (val x) (val y)) @ NL) s)"

subsection \<open>SIMD operands\<close>

text \<open>
  The SIMD vector types and their operators are declared in \<^verbatim>\<open>simd.h\<close>, not in this
  header. A vector is the list of its lanes; two vectors of one type have the same
  number of lanes.
\<close>

type_synonym 'a simd = "'a list"

text \<open>Modelled from the spec: the lane-wise operators of \<^verbatim>\<open>simd.h\<close> that the two SIMD
  macros use (\<^verbatim>\<open>==\<close>, \<^verbatim>\<open>-\<close>, \<^verbatim>\<open>abs\<close>, \<^verbatim>\<open><\<close>), each "elementwise".\<close>

definition simd_equal :: "'a simd \<Rightarrow> 'a simd \<Rightarrow> bool simd" where
  "simd_equal x y = map2 (=) x y"

definition simd_minus :: "('a::minus) simd \<Rightarrow> 'a simd \<Rightarrow> 'a simd" where
  "simd_minus x y = map2 (-) x y"

definition simd_vabs :: "('a::abs) simd \<Rightarrow> 'a simd" where
  "simd_vabs x = map abs x"

definition simd_less :: "('a::ord) simd \<Rightarrow> 'a simd \<Rightarrow> bool simd" where
  "simd_less x y = map2 (<) x y"

text \<open>Modelled from the spec: \<^verbatim>\<open>all\<close> of \<^verbatim>\<open>simd.h\<close>, "all elements true".\<close>

definition simd_all :: "bool simd \<Rightarrow> bool" where
  "simd_all v = list_all (\<lambda>b. b) v"

definition OIIO_CHECK_SIMD_EQUAL ::
  "terminal \<Rightarrow> ('a simd \<Rightarrow> string) \<Rightarrow> location \<Rightarrow> 'a simd expr \<Rightarrow> 'a simd expr
     \<Rightarrow> test_state \<Rightarrow> test_state" where
  "OIIO_CHECK_SIMD_EQUAL t shw loc x y s =
     (if simd_all (simd_equal (val x) (val y)) then s
      else record_failure
        (failed_header t loc @ src x @ '' == '' @ src y @ NL @ values_were shw x y @ NL) s)"

definition OIIO_CHECK_SIMD_EQUAL_THRESH ::
  "terminal \<Rightarrow> ('a simd \<Rightarrow> string) \<Rightarrow> location \<Rightarrow> 'a simd expr \<Rightarrow> 'a simd expr
     \<Rightarrow> ('a::{minus,abs,ord}) simd \<Rightarrow> test_state \<Rightarrow> test_state" where
  "OIIO_CHECK_SIMD_EQUAL_THRESH t shw loc x y eps s =
     (if simd_all (simd_less (simd_vabs (simd_minus (val x) (val y))) eps) then s
      else record_failure
        (failed_header t loc @ src x @ '' == '' @ src y @ NL @ values_were shw x y @ NL) s)"

subsection \<open>Output of vectors (lines 108--114)\<close>

text \<open>Modelled from the spec: \<^verbatim>\<open>Strutil::join\<close> of \<^verbatim>\<open>strutil.h\<close>, which is not in this
  header. The spec calls the result "comma-joined": the elements as their output
  operator writes them, with the separator between neighbours.\<close>

fun Strutil_join :: "('a \<Rightarrow> string) \<Rightarrow> 'a list \<Rightarrow> string \<Rightarrow> string" where
  "Strutil_join shw [] sep = []"
| "Strutil_join shw [v] sep = shw v"
| "Strutil_join shw (v # w # vs) sep = shw v @ sep @ Strutil_join shw (w # vs) sep"

text \<open>\<^verbatim>\<open>out << '{' << OIIO::Strutil::join(v, ",") << '}'; return out;\<close> The stream is
  the text written so far.\<close>

definition vector_output :: "('a \<Rightarrow> string) \<Rightarrow> string \<Rightarrow> 'a list \<Rightarrow> string" where
  "vector_output shw out v = out @ ''{'' @ Strutil_join shw v '','' @ ''}''"

subsection \<open>Check invocations and test runs\<close>

text \<open>The output operators of the operand types.\<close>

record 'a printers =
  show_bool :: "bool \<Rightarrow> string"
  show_scalar :: "'a \<Rightarrow> string"
  show_number :: "number \<Rightarrow> string"
  show_simd :: "'a simd \<Rightarrow> string"

text \<open>One invocation of a check macro: its call site and its arguments.\<close>

datatype 'a check =
    CHECK_ASSERT location "bool expr"
  | CHECK_EQUAL location "'a expr" "'a expr"
  | CHECK_EQUAL_THRESH location "'a expr" "'a expr" "'a tolerance"
  | CHECK_EQUAL_APPROX location "number expr" "number expr"
  | CHECK_NE location "'a expr" "'a expr"
  | CHECK_LT location "'a expr" "'a expr"
  | CHECK_GT location "'a expr" "'a expr"
  | CHECK_LE location "'a expr" "'a expr"
  | CHECK_GE location "'a expr" "'a expr"
  | CHECK_SIMD_EQUAL location "'a simd expr" "'a simd expr"
  | CHECK_SIMD_EQUAL_THRESH location "'a simd expr" "'a simd expr" "'a simd"

fun run_check ::
  "terminal \<Rightarrow> 'a printers \<Rightarrow> ('a::{minus,abs,ord,zero_neq_one}) check \<Rightarrow> test_state \<Rightarrow> test_state" where
  "run_check t p (CHECK_ASSERT loc x) s = OIIO_CHECK_ASSERT t loc x s"
| "run_check t p (CHECK_EQUAL loc x y) s = OIIO_CHECK_EQUAL t (show_scalar p) loc x y s"
| "run_check t p (CHECK_EQUAL_THRESH loc x y eps) s =
     OIIO_CHECK_EQUAL_THRESH t (show_scalar p) loc x y eps s"
| "run_check t p (CHECK_EQUAL_APPROX loc x y) s =
     OIIO_CHECK_EQUAL_APPROX t (show_number p) loc x y s"
| "run_check t p (CHECK_NE loc x y) s = OIIO_CHECK_NE t (show_scalar p) loc x y s"
| "run_check t p (CHECK_LT loc x y) s = OIIO_CHECK_LT t (show_scalar p) loc x y s"
| "run_check t p (CHECK_GT loc x y) s = OIIO_CHECK_GT t (show_scalar p) loc x y s"
| "run_check t p (CHECK_LE loc x y) s = OIIO_CHECK_LE t (show_scalar p) loc x y s"
| "run_check t p (CHECK_GE loc x y) s = OIIO_CHECK_GE t (show_scalar p) loc x y s"
| "run_check t p (CHECK_SIMD_EQUAL loc x y) s =
     OIIO_CHECK_SIMD_EQUAL t (show_simd p) loc x y s"
| "run_check t p (CHECK_SIMD_EQUAL_THRESH loc x y eps) s =
     OIIO_CHECK_SIMD_EQUAL_THRESH t (show_simd p) loc x y eps s"

text \<open>The condition each macro tests (the first operand of its \<^verbatim>\<open>?:\<close>).\<close>

fun predicate :: "('a::{minus,abs,ord,zero_neq_one}) check \<Rightarrow> bool" where
  "predicate (CHECK_ASSERT loc x) = val x"
| "predicate (CHECK_EQUAL loc x y) = (val x = val y)"
| "predicate (CHECK_EQUAL_THRESH loc x y eps) = thresh_condition \<bar>val x - val y\<bar> eps"
| "predicate (CHECK_EQUAL_APPROX loc x y) = equal_approx (val x) (val y)"
| "predicate (CHECK_NE loc x y) = (val x \<noteq> val y)"
| "predicate (CHECK_LT loc x y) = (val x < val y)"
| "predicate (CHECK_GT loc x y) = (val x > val y)"
| "predicate (CHECK_LE loc x y) = (val x \<le> val y)"
| "predicate (CHECK_GE loc x y) = (val x \<ge> val y)"
| "predicate (CHECK_SIMD_EQUAL loc x y) = simd_all (simd_equal (val x) (val y))"
| "predicate (CHECK_SIMD_EQUAL_THRESH loc x y eps) =
     simd_all (simd_less (simd_vabs (simd_minus (val x) (val y))) eps)"

text \<open>A test body: checks evaluated one after the other.\<close>

fun run_checks ::
  "terminal \<Rightarrow> 'a printers \<Rightarrow> ('a::{minus,abs,ord,zero_neq_one}) check list \<Rightarrow> test_state \<Rightarrow> test_state" where
  "run_checks t p [] s = s"
| "run_checks t p (c # cs) s = run_checks t p cs (run_check t p c s)"

text \<open>What one check appended to standard output.\<close>

definition printed ::
  "terminal \<Rightarrow> 'a printers \<Rightarrow> ('a::{minus,abs,ord,zero_neq_one}) check \<Rightarrow> test_state \<Rightarrow> string" where
  "printed t p c s = drop (length (cout s)) (cout (run_check t p c s))"

text \<open>The source texts of a check's operands, and their values as the output operators
  write them.\<close>

fun operand_texts :: "'a check \<Rightarrow> string list" where
  "operand_texts (CHECK_ASSERT loc x) = [src x]"
| "operand_texts (CHECK_EQUAL loc x y) = [src x, src y]"
| "operand_texts (CHECK_EQUAL_THRESH loc x y eps) = [src x, src y]"
| "operand_texts (CHECK_EQUAL_APPROX loc x y) = [src x, src y]"
| "operand_texts (CHECK_NE loc x y) = [src x, src y]"
| "operand_texts (CHECK_LT loc x y) = [src x, src y]"
| "operand_texts (CHECK_GT loc x y) = [src x, src y]"
| "operand_texts (CHECK_LE loc x y) = [src x, src y]"
| "operand_texts (CHECK_GE loc x y) = [src x, src y]"
| "operand_texts (CHECK_SIMD_EQUAL loc x y) = [src x, src y]"
| "operand_texts (CHECK_SIMD_EQUAL_THRESH loc x y eps) = [src x, src y]"

fun operand_values :: "'a printers \<Rightarrow> 'a check \<Rightarrow> string list" where
  "operand_values p (CHECK_ASSERT loc x) = [show_bool p (val x)]"
| "operand_values p (CHECK_EQUAL loc x y) = [show_scalar p (val x), show_scalar p (val y)]"
| "operand_values p (CHECK_EQUAL_THRESH loc x y eps) =
     [show_scalar p (val x), show_scalar p (val y)]"
| "operand_values p (CHECK_EQUAL_APPROX loc x y) = [show_number p (val x), show_number p (val y)]"
| "operand_values p (CHECK_NE loc x y) = [show_scalar p (val x), show_scalar p (val y)]"
| "operand_values p (CHECK_LT loc x y) = [show_scalar p (val x), show_scalar p (val y)]"
| "operand_values p (CHECK_GT loc x y) = [show_scalar p (val x), show_scalar p (val y)]"
| "operand_values p (CHECK_LE loc x y) = [show_scalar p (val x), show_scalar p (val y)]"
| "operand_values p (CHECK_GE loc x y) = [show_scalar p (val x), show_scalar p (val y)]"
| "operand_values p (CHECK_SIMD_EQUAL loc x y) = [show_simd p (val x), show_simd p (val y)]"
| "operand_values p (CHECK_SIMD_EQUAL_THRESH loc x y eps) =
     [show_simd p (val x), show_simd p (val y)]"

fun call_site :: "'a check \<Rightarrow> location" where
  "call_site (CHECK_ASSERT loc x) = loc"
| "call_site (CHECK_EQUAL loc x y) = loc"
| "call_site (CHECK_EQUAL_THRESH loc x y eps) = loc"
| "call_site (CHECK_EQUAL_APPROX loc x y) = loc"
| "call_site (CHECK_NE loc x y) = loc"
| "call_site (CHECK_LT loc x y) = loc"
| "call_site (CHECK_GT loc x y) = loc"
| "call_site (CHECK_LE loc x y) = loc"
| "call_site (CHECK_GE loc x y) = loc"
| "call_site (CHECK_SIMD_EQUAL loc x y) = loc"
| "call_site (CHECK_SIMD_EQUAL_THRESH loc x y eps) = loc"

fun is_assert :: "'a check \<Rightarrow> bool" where
  "is_assert (CHECK_ASSERT loc x) = True"
| "is_assert _ = False"

text \<open>The block a failing check is to print. For a check with two operands: the
  call site and \<^verbatim>\<open>FAILED: \<close>, the two source texts around the operator, and on a second
  line both values in quotes, followed by the difference where the macro prints one.
  For \<^verbatim>\<open>OIIO_CHECK_ASSERT\<close>: the call site, \<^verbatim>\<open>FAILED: \<close> and the source text, on one
  line.\<close>

definition two_operand_block ::
  "terminal \<Rightarrow> location \<Rightarrow> string \<Rightarrow> string \<Rightarrow> string \<Rightarrow> string \<Rightarrow> string \<Rightarrow> string \<Rightarrow> string" where
  "two_operand_block t loc tx opr ty vx vy extra =
     failed_header t loc @ tx @ opr @ ty @ NL
       @ TAB @ ''values were '' @ QUOTE @ vx @ QUOTE @ '' and '' @ QUOTE @ vy @ QUOTE @ extra @ NL"

fun diagnostic_block ::
  "terminal \<Rightarrow> 'a printers \<Rightarrow> ('a::{minus,abs}) check \<Rightarrow> string" where
  "diagnostic_block t p (CHECK_ASSERT loc x) = failed_header t loc @ src x @ NL"
| "diagnostic_block t p (CHECK_EQUAL loc x y) =
     two_operand_block t loc (src x) '' == '' (src y)
       (show_scalar p (val x)) (show_scalar p (val y)) []"
| "diagnostic_block t p (CHECK_EQUAL_THRESH loc x y eps) =
     two_operand_block t loc (src x) '' == '' (src y)
       (show_scalar p (val x)) (show_scalar p (val y))
       ('', diff was '' @ show_scalar p \<bar>val x - val y\<bar>)"
| "diagnostic_block t p (CHECK_EQUAL_APPROX loc x y) =
     two_operand_block t loc (src x) '' == '' (src y)
       (show_number p (val x)) (show_number p (val y))
       ('', diff was '' @ show_number p (difference (val x) (val y)))"
| "diagnostic_block t p (CHECK_NE loc x y) =
     two_operand_block t loc (src x) '' != '' (src y)
       (show_scalar p (val x)) (show_scalar p (val y)) []"
| "diagnostic_block t p (CHECK_LT loc x y) =
     two_operand_block t loc (src x) '' < '' (src y)
       (show_scalar p (val x)) (show_scalar p (val y)) []"
| "diagnostic_block t p (CHECK_GT loc x y) =
     two_operand_block t loc (src x) '' > '' (src y)
       (show_scalar p (val x)) (show_scalar p (val y)) []"
| "diagnostic_block t p (CHECK_LE loc x y) =
     two_operand_block t loc (src x) '' <= '' (src y)
       (show_scalar p (val x)) (show_scalar p (val y)) []"
| "diagnostic_block t p (CHECK_GE loc x y) =
     two_operand_block t loc (src x) '' >= '' (src y)
       (show_scalar p (val x)) (show_scalar p (val y)) []"
| "diagnostic_block t p (CHECK_SIMD_EQUAL loc x y) =
     two_operand_block t loc (src x) '' == '' (src y)
       (show_simd p (val x)) (show_simd p (val y)) []"
| "diagnostic_block t p (CHECK_SIMD_EQUAL_THRESH loc x y eps) =
     two_operand_block t loc (src x) '' == '' (src y)
       (show_simd p (val x)) (show_simd p (val y)) []"

text \<open>A terminal without colour, and the output operators for \<^verbatim>\<open>int\<close> operands; the
  concrete runs below use them.\<close>

definition plain_terminal :: terminal where
  "plain_terminal = \<lparr>ansi = (\<lambda>cmd. []), ansi_text = (\<lambda>cmd txt. txt)\<rparr>"

definition int_printers :: "int printers" where
  "int_printers =
     \<lparr>show_bool = (\<lambda>b. if b then ''1'' else ''0''),
      show_scalar = decimal_int,
      show_number = (\<lambda>x. ''?''),
      show_simd = (\<lambda>v. vector_output decimal_int [] v)\<rparr>"

text \<open>How many checks of a run have a false predicate.\<close>

definition failing :: "('a::{minus,abs,ord,zero_neq_one}) check list \<Rightarrow> nat" where
  "failing cs = length (filter (\<lambda>c. \<not> predicate c) cs)"

text \<open>A run of ten checks on \<^verbatim>\<open>int\<close> operands; the second, the fifth and the eighth fail.\<close>

definition ten_checks :: "int check list" where
  "ten_checks =
     [CHECK_EQUAL \<lparr>FILE = ''t.cpp'', LINE = 1\<rparr> (Expr ''a'' 5) (Expr ''b'' 5),
      CHECK_EQUAL \<lparr>FILE = ''t.cpp'', LINE = 2\<rparr> (Expr ''a'' 5) (Expr ''c'' 6),
      CHECK_NE \<lparr>FILE = ''t.cpp'', LINE = 3\<rparr> (Expr ''a'' 5) (Expr ''c'' 6),
      CHECK_LT \<lparr>FILE = ''t.cpp'', LINE = 4\<rparr> (Expr ''a'' 5) (Expr ''c'' 6),
      CHECK_GT \<lparr>FILE = ''t.cpp'', LINE = 5\<rparr> (Expr ''a'' 5) (Expr ''c'' 6),
      CHECK_LE \<lparr>FILE = ''t.cpp'', LINE = 6\<rparr> (Expr ''a'' 5) (Expr ''b'' 5),
      CHECK_GE \<lparr>FILE = ''t.cpp'', LINE = 7\<rparr> (Expr ''a'' 5) (Expr ''b'' 5),
      CHECK_ASSERT \<lparr>FILE = ''t.cpp'', LINE = 8\<rparr> (Expr ''ok'' False),
      CHECK_EQUAL_THRESH \<lparr>FILE = ''t.cpp'', LINE = 9\<rparr> (Expr ''a'' 5) (Expr ''c'' 6) (Tight 1),
      CHECK_SIMD_EQUAL \<lparr>FILE = ''t.cpp'', LINE = 10\<rparr> (Expr ''v'' [1, 2]) (Expr ''w'' [1, 2])]"


section \<open>Properties\<close>

subsection \<open>What a check does to the state\<close>

lemma prefix_increment_neq: "prefix_increment c \<noteq> c"
proof
  assume "prefix_increment c = c"
  then have "m_failures (prefix_increment c) = m_failures c" by simp
  then show False by (simp add: prefix_increment_def)
qed

lemma record_failure_neq: "record_failure msg s \<noteq> s"
proof
  assume "record_failure msg s = s"
  then have "unit_test_failures (record_failure msg s) = unit_test_failures s" by simp
  then show False by (simp add: record_failure_def prefix_increment_neq)
qed

lemma cout_record_failure: "cout (record_failure msg s) = cout s @ msg"
  by (simp add: record_failure_def)

lemma failures_record_failure:
  "m_failures (unit_test_failures (record_failure msg s)) = m_failures (unit_test_failures s) + 1"
  by (simp add: record_failure_def prefix_increment_def)

lemmas macro_defs = OIIO_CHECK_ASSERT_def OIIO_CHECK_EQUAL_def OIIO_CHECK_EQUAL_THRESH_def
  OIIO_CHECK_EQUAL_APPROX_def OIIO_CHECK_NE_def OIIO_CHECK_LT_def OIIO_CHECK_GT_def
  OIIO_CHECK_LE_def OIIO_CHECK_GE_def OIIO_CHECK_SIMD_EQUAL_def OIIO_CHECK_SIMD_EQUAL_THRESH_def

lemma run_check_pass: "predicate c \<Longrightarrow> run_check t p c s = s"
  by (cases c) (simp_all add: macro_defs)

lemma run_check_fail:
  "\<not> predicate c \<Longrightarrow> run_check t p c s = record_failure (printed t p c s) s"
  by (cases c) (simp_all add: macro_defs printed_def cout_record_failure)

lemma header_first:
  "\<not> predicate c \<Longrightarrow> prefix (failed_header t (call_site c)) (printed t p c s)"
  by (cases c) (simp_all add: macro_defs printed_def cout_record_failure)

lemma block_shape:
  assumes "msg = h @ sx @ op @ sy @ NL @ TAB @ ''values were '' @ QUOTE @ vx @ QUOTE @ '' and ''
             @ QUOTE @ vy @ QUOTE @ rest"
  shows "sublist sx msg \<and> sublist sy msg \<and> sublist vx msg \<and> sublist vy msg"
proof -
  have 1: "sublist sx (h @ sx @ (op @ sy @ NL @ TAB @ ''values were '' @ QUOTE @ vx @ QUOTE
             @ '' and '' @ QUOTE @ vy @ QUOTE @ rest))"
    by (rule sublist_appendI)
  have 2: "sublist sy ((h @ sx @ op) @ sy @ (NL @ TAB @ ''values were '' @ QUOTE @ vx @ QUOTE
             @ '' and '' @ QUOTE @ vy @ QUOTE @ rest))"
    by (rule sublist_appendI)
  have 3: "sublist vx ((h @ sx @ op @ sy @ NL @ TAB @ ''values were '' @ QUOTE) @ vx @ (QUOTE
             @ '' and '' @ QUOTE @ vy @ QUOTE @ rest))"
    by (rule sublist_appendI)
  have 4: "sublist vy ((h @ sx @ op @ sy @ NL @ TAB @ ''values were '' @ QUOTE @ vx @ QUOTE
             @ '' and '' @ QUOTE) @ vy @ (QUOTE @ rest))"
    by (rule sublist_appendI)
  from 1 have "sublist sx msg" unfolding assms by simp
  moreover from 2 have "sublist sy msg" unfolding assms by simp
  moreover from 3 have "sublist vx msg" unfolding assms by simp
  moreover from 4 have "sublist vy msg" unfolding assms by simp
  ultimately show ?thesis by simp
qed

lemma diagnostic_texts_values:
  assumes "\<not> predicate c" and "\<not> is_assert c"
  shows "(\<forall>txt\<in>set (operand_texts c). sublist txt (printed t p c s)) \<and>
         (\<forall>v\<in>set (operand_values p c). sublist v (printed t p c s))"
proof (cases c)
  case (CHECK_ASSERT loc x)
  with assms show ?thesis by simp
next
  case (CHECK_EQUAL loc x y)
  with assms have "printed t p c s =
      failed_header t loc @ src x @ '' == '' @ src y @ NL @ TAB @ ''values were '' @ QUOTE
        @ show_scalar p (val x) @ QUOTE @ '' and '' @ QUOTE @ show_scalar p (val y) @ QUOTE
        @ NL"
    by (simp add: OIIO_CHECK_EQUAL_def printed_def cout_record_failure values_were_def)
  from block_shape[OF this] CHECK_EQUAL show ?thesis by simp
next
  case (CHECK_EQUAL_THRESH loc x y eps)
  with assms have "printed t p c s =
      failed_header t loc @ src x @ '' == '' @ src y @ NL @ TAB @ ''values were '' @ QUOTE
        @ show_scalar p (val x) @ QUOTE @ '' and '' @ QUOTE @ show_scalar p (val y) @ QUOTE
        @ '', diff was '' @ show_scalar p \<bar>val x - val y\<bar> @ NL"
    by (simp add: OIIO_CHECK_EQUAL_THRESH_def printed_def cout_record_failure values_were_def)
  from block_shape[OF this] CHECK_EQUAL_THRESH show ?thesis by simp
next
  case (CHECK_EQUAL_APPROX loc x y)
  with assms have "printed t p c s =
      failed_header t loc @ src x @ '' == '' @ src y @ NL @ TAB @ ''values were '' @ QUOTE
        @ show_number p (val x) @ QUOTE @ '' and '' @ QUOTE @ show_number p (val y) @ QUOTE
        @ '', diff was '' @ show_number p (difference (val x) (val y)) @ NL"
    by (simp add: OIIO_CHECK_EQUAL_APPROX_def printed_def cout_record_failure values_were_def)
  from block_shape[OF this] CHECK_EQUAL_APPROX show ?thesis by simp
next
  case (CHECK_NE loc x y)
  with assms have "printed t p c s =
      failed_header t loc @ src x @ '' != '' @ src y @ NL @ TAB @ ''values were '' @ QUOTE
        @ show_scalar p (val x) @ QUOTE @ '' and '' @ QUOTE @ show_scalar p (val y) @ QUOTE
        @ NL"
    by (simp add: OIIO_CHECK_NE_def printed_def cout_record_failure values_were_def)
  from block_shape[OF this] CHECK_NE show ?thesis by simp
next
  case (CHECK_LT loc x y)
  with assms have "printed t p c s =
      failed_header t loc @ src x @ '' < '' @ src y @ NL @ TAB @ ''values were '' @ QUOTE
        @ show_scalar p (val x) @ QUOTE @ '' and '' @ QUOTE @ show_scalar p (val y) @ QUOTE
        @ NL"
    by (simp add: OIIO_CHECK_LT_def printed_def cout_record_failure values_were_def)
  from block_shape[OF this] CHECK_LT show ?thesis by simp
next
  case (CHECK_GT loc x y)
  with assms have "printed t p c s =
      failed_header t loc @ src x @ '' > '' @ src y @ NL @ TAB @ ''values were '' @ QUOTE
        @ show_scalar p (val x) @ QUOTE @ '' and '' @ QUOTE @ show_scalar p (val y) @ QUOTE
        @ NL"
    by (simp add: OIIO_CHECK_GT_def printed_def cout_record_failure values_were_def)
  from block_shape[OF this] CHECK_GT show ?thesis by simp
next
  case (CHECK_LE loc x y)
  with assms have "printed t p c s =
      failed_header t loc @ src x @ '' <= '' @ src y @ NL @ TAB @ ''values were '' @ QUOTE
        @ show_scalar p (val x) @ QUOTE @ '' and '' @ QUOTE @ show_scalar p (val y) @ QUOTE
        @ NL"
    by (simp add: OIIO_CHECK_LE_def printed_def cout_record_failure values_were_def)
  from block_shape[OF this] CHECK_LE show ?thesis by simp
next
  case (CHECK_GE loc x y)
  with assms have "printed t p c s =
      failed_header t loc @ src x @ '' >= '' @ src y @ NL @ TAB @ ''values were '' @ QUOTE
        @ show_scalar p (val x) @ QUOTE @ '' and '' @ QUOTE @ show_scalar p (val y) @ QUOTE
        @ NL"
    by (simp add: OIIO_CHECK_GE_def printed_def cout_record_failure values_were_def)
  from block_shape[OF this] CHECK_GE show ?thesis by simp
next
  case (CHECK_SIMD_EQUAL loc x y)
  with assms have "printed t p c s =
      failed_header t loc @ src x @ '' == '' @ src y @ NL @ TAB @ ''values were '' @ QUOTE
        @ show_simd p (val x) @ QUOTE @ '' and '' @ QUOTE @ show_simd p (val y) @ QUOTE
        @ NL"
    by (simp add: OIIO_CHECK_SIMD_EQUAL_def printed_def cout_record_failure values_were_def)
  from block_shape[OF this] CHECK_SIMD_EQUAL show ?thesis by simp
next
  case (CHECK_SIMD_EQUAL_THRESH loc x y eps)
  with assms have "printed t p c s =
      failed_header t loc @ src x @ '' == '' @ src y @ NL @ TAB @ ''values were '' @ QUOTE
        @ show_simd p (val x) @ QUOTE @ '' and '' @ QUOTE @ show_simd p (val y) @ QUOTE
        @ NL"
    by (simp add: OIIO_CHECK_SIMD_EQUAL_THRESH_def printed_def cout_record_failure values_were_def)
  from block_shape[OF this] CHECK_SIMD_EQUAL_THRESH show ?thesis by simp
qed

lemma assert_text:
  assumes "\<not> predicate c" and "is_assert c"
  shows "\<forall>txt\<in>set (operand_texts c). sublist txt (printed t p c s)"
proof (cases c)
  case (CHECK_ASSERT loc x)
  with assms have "printed t p c s = failed_header t loc @ src x @ NL"
    by (simp add: OIIO_CHECK_ASSERT_def printed_def cout_record_failure)
  moreover have "sublist (src x) (failed_header t loc @ src x @ NL)"
    by (rule sublist_appendI)
  ultimately show ?thesis using CHECK_ASSERT by simp
qed (use assms in simp_all)

lemma sint_succ: "sint (w :: 32 word) < INT_MAX \<Longrightarrow> sint (w + 1) = sint w + 1"
proof -
  assume a: "sint w < INT_MAX"
  have lo: "- (2 ^ 31) \<le> sint w" using sint_ge[of w] by simp
  have "sint (w + 1) = signed_take_bit 31 (sint w + 1)"
    by (simp add: sint_word_ariths)
  also have "\<dots> = sint w + 1"
    using a lo by (intro signed_take_bit_int_eq_self) (simp_all add: INT_MAX_def)
  finally show ?thesis .
qed

lemma sint_add_in_range:
  "- (2 ^ 31) \<le> sint (w :: 32 word) + sint (i :: 32 word) \<Longrightarrow> sint w + sint i \<le> INT_MAX \<Longrightarrow> sint (w + i) = sint w + sint i"
proof -
  assume lo: "- (2 ^ 31) \<le> sint w + sint i" and hi: "sint w + sint i \<le> INT_MAX"
  have "sint (w + i) = signed_take_bit 31 (sint w + sint i)"
    by (simp add: sint_word_ariths)
  also have "\<dots> = sint w + sint i"
    using lo hi by (intro signed_take_bit_int_eq_self) (simp_all add: INT_MAX_def)
  finally show ?thesis .
qed

text \<open>
  Claim C2. A check whose predicate is true leaves the state as it was: the failure
  counter keeps its value and nothing is written to standard output.
\<close>

theorem passing_check_no_effect:
  "predicate c \<Longrightarrow>
     run_check t p c s = s \<and>
     unit_test_failures (run_check t p c s) = unit_test_failures s \<and>
     cout (run_check t p c s) = cout s \<and> printed t p c s = []"
  by (simp add: run_check_pass printed_def)

theorem passing_check_no_effect_witness:
  "predicate (CHECK_EQUAL \<lparr>FILE = ''t.cpp'', LINE = 7\<rparr> (Expr ''a'' (5::int)) (Expr ''b'' 5)) \<and>
   run_check plain_terminal int_printers
     (CHECK_EQUAL \<lparr>FILE = ''t.cpp'', LINE = 7\<rparr> (Expr ''a'' 5) (Expr ''b'' 5)) initial_state
     = initial_state \<and>
   to_int (unit_test_failures (run_check plain_terminal int_printers
     (CHECK_EQUAL \<lparr>FILE = ''t.cpp'', LINE = 7\<rparr> (Expr ''a'' 5) (Expr ''b'' 5)) initial_state)) = 0"
  using passing_check_no_effect [of "CHECK_EQUAL \<lparr>FILE = ''t.cpp'', LINE = 7\<rparr> (Expr ''a'' (5::int)) (Expr ''b'' 5)"
      plain_terminal int_printers initial_state]
  by (simp add: initial_state_def UnitTestFailureCounter_init_def to_int_def)

lemma printed_block: "\<not> predicate c \<Longrightarrow> printed t p c s = diagnostic_block t p c"
  by (cases c)
     (simp_all add: macro_defs printed_def cout_record_failure values_were_def
        two_operand_block_def)

text \<open>
  Claim C1, as amended. A check whose predicate is false increments the counter once
  (the stored count goes up by one; as a number, whenever it was below \<open>INT_MAX\<close>) and
  appends exactly one block to standard output (\<open>diagnostic_block\<close>). For every macro
  with two operands the block holds the source texts and the stringified values of
  both; for \<^verbatim>\<open>OIIO_CHECK_ASSERT\<close> the block is the call site, \<^verbatim>\<open>FAILED: \<close>, the source
  text of its one operand and a newline, with no value.
\<close>

theorem failing_check_effect:
  assumes "\<not> predicate c"
  shows "run_check t p c s =
           s\<lparr>cout := cout s @ diagnostic_block t p c,
             unit_test_failures := prefix_increment (unit_test_failures s)\<rparr> \<and>
         printed t p c s = diagnostic_block t p c \<and>
         m_failures (unit_test_failures (run_check t p c s)) = m_failures (unit_test_failures s) + 1 \<and>
         (to_int (unit_test_failures s) < INT_MAX \<longrightarrow>
            to_int (unit_test_failures (run_check t p c s)) = to_int (unit_test_failures s) + 1) \<and>
         (is_assert c \<longrightarrow>
            diagnostic_block t p c = failed_header t (call_site c) @ concat (operand_texts c) @ NL) \<and>
         (\<forall>txt\<in>set (operand_texts c). sublist txt (diagnostic_block t p c)) \<and>
         (\<not> is_assert c \<longrightarrow> (\<forall>v\<in>set (operand_values p c). sublist v (diagnostic_block t p c)))"
proof -
  have blk: "printed t p c s = diagnostic_block t p c"
    using assms by (rule printed_block)
  have "run_check t p c s = record_failure (printed t p c s) s"
    using assms by (rule run_check_fail)
  then have run: "run_check t p c s =
           s\<lparr>cout := cout s @ diagnostic_block t p c,
             unit_test_failures := prefix_increment (unit_test_failures s)\<rparr>"
    by (simp add: blk record_failure_def)
  have cnt: "m_failures (unit_test_failures (run_check t p c s)) = m_failures (unit_test_failures s) + 1"
    by (subst run) (simp add: prefix_increment_def)
  have num: "to_int (unit_test_failures s) < INT_MAX \<longrightarrow>
            to_int (unit_test_failures (run_check t p c s)) = to_int (unit_test_failures s) + 1"
    unfolding to_int_def cnt by (simp add: sint_succ)
  have asrt: "is_assert c \<longrightarrow>
      diagnostic_block t p c = failed_header t (call_site c) @ concat (operand_texts c) @ NL"
    by (cases c) simp_all
  have tx: "\<forall>txt\<in>set (operand_texts c). sublist txt (diagnostic_block t p c)"
    using assms assert_text [of c t p s] diagnostic_texts_values [of c t p s]
    unfolding blk by (cases "is_assert c") blast+
  have vals: "\<not> is_assert c \<longrightarrow> (\<forall>v\<in>set (operand_values p c). sublist v (diagnostic_block t p c))"
    using assms diagnostic_texts_values [of c t p s] unfolding blk by blast
  from run blk cnt num asrt tx vals show ?thesis by blast
qed

theorem failing_check_effect_witness:
  "\<not> predicate (CHECK_EQUAL \<lparr>FILE = ''t.cpp'', LINE = 7\<rparr> (Expr ''a'' (5::int)) (Expr ''b'' 6)) \<and>
   run_check plain_terminal int_printers
     (CHECK_EQUAL \<lparr>FILE = ''t.cpp'', LINE = 7\<rparr> (Expr ''a'' 5) (Expr ''b'' 6)) initial_state
   = \<lparr>cout = ''t.cpp:7:'' @ NL @ ''FAILED: a == b'' @ NL @ TAB @ ''values were '' @ QUOTE @ ''5''
              @ QUOTE @ '' and '' @ QUOTE @ ''6'' @ QUOTE @ NL,
      unit_test_failures = \<lparr>m_failures = 1\<rparr>\<rparr> \<and>
   to_int (unit_test_failures (run_check plain_terminal int_printers
     (CHECK_EQUAL \<lparr>FILE = ''t.cpp'', LINE = 7\<rparr> (Expr ''a'' 5) (Expr ''b'' 6)) initial_state)) = 1"
proof -
  let ?c = "CHECK_EQUAL \<lparr>FILE = ''t.cpp'', LINE = 7\<rparr> (Expr ''a'' (5::int)) (Expr ''b'' 6)"
  have np: "\<not> predicate ?c" by simp
  note eff = failing_check_effect [OF np, of plain_terminal int_printers initial_state]
  have blk: "diagnostic_block plain_terminal int_printers ?c =
      ''t.cpp:7:'' @ NL @ ''FAILED: a == b'' @ NL @ TAB @ ''values were '' @ QUOTE @ ''5''
        @ QUOTE @ '' and '' @ QUOTE @ ''6'' @ QUOTE @ NL"
    by (simp add: two_operand_block_def failed_header_def plain_terminal_def int_printers_def
        decimal_int_def digit_def)
  from eff have "run_check plain_terminal int_printers ?c initial_state =
      initial_state\<lparr>cout := cout initial_state @ diagnostic_block plain_terminal int_printers ?c,
        unit_test_failures := prefix_increment (unit_test_failures initial_state)\<rparr>"
    by blast
  then have run: "run_check plain_terminal int_printers ?c initial_state =
      \<lparr>cout = ''t.cpp:7:'' @ NL @ ''FAILED: a == b'' @ NL @ TAB @ ''values were '' @ QUOTE @ ''5''
              @ QUOTE @ '' and '' @ QUOTE @ ''6'' @ QUOTE @ NL,
       unit_test_failures = \<lparr>m_failures = 1\<rparr>\<rparr>"
    unfolding blk
    by (simp add: initial_state_def UnitTestFailureCounter_init_def prefix_increment_def)
  then have "to_int (unit_test_failures (run_check plain_terminal int_printers ?c initial_state)) = 1"
    by (simp add: to_int_def)
  with np run show ?thesis by blast
qed

text \<open>
  The claim as first stated asks every failing check for the values of its operands.
  A failing \<^verbatim>\<open>OIIO_CHECK_ASSERT(ok)\<close> at line 7 of \<^verbatim>\<open>t.cpp\<close> prints the two lines
  below and no value.
\<close>

theorem assert_prints_no_value:
  "\<not> predicate (CHECK_ASSERT \<lparr>FILE = ''t.cpp'', LINE = 7\<rparr> (Expr ''ok'' False) :: int check) \<and>
   printed plain_terminal int_printers
     (CHECK_ASSERT \<lparr>FILE = ''t.cpp'', LINE = 7\<rparr> (Expr ''ok'' False)) initial_state
     = ''t.cpp:7:'' @ NL @ ''FAILED: ok'' @ NL \<and>
   \<not> (\<forall>v\<in>set (operand_values int_printers
             (CHECK_ASSERT \<lparr>FILE = ''t.cpp'', LINE = 7\<rparr> (Expr ''ok'' False))).
        sublist v (printed plain_terminal int_printers
          (CHECK_ASSERT \<lparr>FILE = ''t.cpp'', LINE = 7\<rparr> (Expr ''ok'' False)) initial_state))"
  by (simp add: printed_def OIIO_CHECK_ASSERT_def record_failure_def failed_header_def
        plain_terminal_def int_printers_def initial_state_def sublist_code digit_def)

subsection \<open>The counter's operations\<close>

text \<open>
  Claim C7, as amended. While the 32-bit count does not overflow, prefix and postfix
  increment raise the stored count by exactly one (postfix returns the old value), and
  compound add with a non-negative argument raises it by that argument, so none of
  them lowers it.
\<close>

theorem counter_operations:
  "(to_int c < INT_MAX \<longrightarrow>
      to_int (prefix_increment c) = to_int c + 1 \<and>
      to_int (snd (postfix_increment c)) = to_int c + 1 \<and>
      fst (postfix_increment c) = to_int c) \<and>
   (0 \<le> sint i \<and> to_int c + sint i \<le> INT_MAX \<longrightarrow>
      to_int (snd (add_assign c i)) = to_int c + sint i \<and>
      to_int c \<le> to_int (snd (add_assign c i)))"
proof -
  have lo: "- (2 ^ 31) \<le> sint (m_failures c)" using sint_ge[of "m_failures c"] by simp
  have inc: "to_int c < INT_MAX \<Longrightarrow> sint (m_failures c + 1) = sint (m_failures c) + 1"
    by (simp add: to_int_def sint_succ)
  have add: "0 \<le> sint i \<Longrightarrow> to_int c + sint i \<le> INT_MAX \<Longrightarrow>
      sint (m_failures c + i) = sint (m_failures c) + sint i"
    using lo by (intro sint_add_in_range) (simp_all add: to_int_def)
  show ?thesis
    using inc add
    by (simp add: to_int_def prefix_increment_def postfix_increment_def add_assign_def Let_def)
qed

theorem counter_operations_witness:
  "to_int \<lparr>m_failures = 3\<rparr> < INT_MAX \<and> to_int (prefix_increment \<lparr>m_failures = 3\<rparr>) = 4 \<and>
   to_int (snd (postfix_increment \<lparr>m_failures = 3\<rparr>)) = 4 \<and>
   fst (postfix_increment \<lparr>m_failures = 3\<rparr>) = 3 \<and>
   0 \<le> sint (2 :: 32 word) \<and> to_int (snd (add_assign \<lparr>m_failures = 3\<rparr> 2)) = 5"
  using counter_operations [of "\<lparr>m_failures = 3\<rparr>" 2]
  by (simp add: to_int_def INT_MAX_def)

text \<open>
  The claim as first stated covers every argument of compound add. The parameter is a
  signed \<^verbatim>\<open>int\<close>: adding \<open>-1\<close> to a count of 3 stores 2.
\<close>

theorem add_assign_negative_decreases:
  "to_int (snd (add_assign \<lparr>m_failures = 3\<rparr> (- 1))) = 2 \<and>
   to_int (snd (add_assign \<lparr>m_failures = 3\<rparr> (- 1))) < to_int \<lparr>m_failures = 3\<rparr>"
  by (simp add: add_assign_def to_int_def Let_def)

subsection \<open>Runs of checks\<close>

lemma run_check_count:
  "m_failures (unit_test_failures (run_check t p c s)) =
     m_failures (unit_test_failures s) + (if predicate c then 0 else 1)"
  by (cases "predicate c") (simp_all add: run_check_pass run_check_fail failures_record_failure)

lemma run_checks_count:
  "m_failures (unit_test_failures (run_checks t p cs s)) =
     m_failures (unit_test_failures s) + of_nat (failing cs)"
  by (induction cs arbitrary: s) (simp_all add: failing_def run_check_count)

lemma run_check_prefix: "prefix (cout s) (cout (run_check t p c s))"
  by (cases "predicate c") (simp_all add: run_check_pass run_check_fail cout_record_failure)

lemma run_checks_prefix: "prefix (cout s) (cout (run_checks t p cs s))"
proof (induction cs arbitrary: s)
  case Nil
  show ?case by simp
next
  case (Cons c cs)
  have "prefix (cout s) (cout (run_check t p c s))" by (rule run_check_prefix)
  also have "prefix (cout (run_check t p c s)) (cout (run_checks t p cs (run_check t p c s)))"
    by (rule Cons.IH)
  finally show ?case by simp
qed

lemma run_checks_append:
  "run_checks t p (cs @ ds) s = run_checks t p ds (run_checks t p cs s)"
  by (induction cs arbitrary: s) simp_all

text \<open>
  Claim C8. No check ends the run: a check either leaves the state alone or records
  one failure (its only effects are the text it prints and the increment), the checks
  after it are evaluated on the state it leaves, every failing check of a run is
  counted, and what was printed before stays printed.
\<close>

theorem checks_never_abort:
  "(run_check t p c s = s \<or> run_check t p c s = record_failure (printed t p c s) s) \<and>
   run_checks t p (cs @ c # ds) s = run_checks t p ds (run_check t p c (run_checks t p cs s)) \<and>
   m_failures (unit_test_failures (run_checks t p cs s)) =
     m_failures (unit_test_failures s) + of_nat (failing cs) \<and>
   prefix (cout s) (cout (run_checks t p cs s))"
proof -
  have "run_check t p c s = s \<or> run_check t p c s = record_failure (printed t p c s) s"
    using run_check_pass run_check_fail by (cases "predicate c") blast+
  moreover have "run_checks t p (cs @ c # ds) s = run_checks t p ds (run_check t p c (run_checks t p cs s))"
    by (simp add: run_checks_append)
  ultimately show ?thesis
    using run_checks_count run_checks_prefix by blast
qed

theorem checks_never_abort_witness:
  "run_checks plain_terminal int_printers
     ([CHECK_EQUAL \<lparr>FILE = ''t.cpp'', LINE = 2\<rparr> (Expr ''a'' 5) (Expr ''c'' 6)]
        @ CHECK_ASSERT \<lparr>FILE = ''t.cpp'', LINE = 8\<rparr> (Expr ''ok'' False) # []) initial_state
   = \<lparr>cout = ''t.cpp:2:'' @ NL @ ''FAILED: a == c'' @ NL @ TAB @ ''values were '' @ QUOTE @ ''5''
              @ QUOTE @ '' and '' @ QUOTE @ ''6'' @ QUOTE @ NL
              @ ''t.cpp:8:'' @ NL @ ''FAILED: ok'' @ NL,
      unit_test_failures = \<lparr>m_failures = 2\<rparr>\<rparr>"
  using checks_never_abort [of plain_terminal int_printers
      "CHECK_ASSERT \<lparr>FILE = ''t.cpp'', LINE = 8\<rparr> (Expr ''ok'' False)" initial_state
      "[CHECK_EQUAL \<lparr>FILE = ''t.cpp'', LINE = 2\<rparr> (Expr ''a'' 5) (Expr ''c'' 6)]" "[]"]
  by (simp add: initial_state_def UnitTestFailureCounter_init_def macro_defs record_failure_def
      prefix_increment_def failed_header_def values_were_def plain_terminal_def int_printers_def
      decimal_int_def digit_def)

lemma to_int_zero: "to_int c = 0 \<longleftrightarrow> m_failures c = 0"
  by (simp add: to_int_def signed_eq_0_iff)

text \<open>
  Claim C3, as amended. When the process ends normally and the count is not zero, the
  exit status is exactly 1, whatever the count and whatever \<open>main\<close> returned (ten
  checks with three failures: count 3, status 1). When the count is zero the destructor
  calls nothing and the status is the one \<open>main\<close> returned: 0 for a \<open>main\<close> that
  returns 0.
\<close>

theorem exit_status:
  "(to_int (unit_test_failures s) = 0 \<longrightarrow> snd (normal_termination t rc s) = rc) \<and>
   (to_int (unit_test_failures s) \<noteq> 0 \<longrightarrow> snd (normal_termination t rc s) = 1)"
  by (simp add: normal_termination_def destructor_def to_int_zero)

lemma ten_checks_count:
  "to_int (unit_test_failures (run_checks plain_terminal int_printers ten_checks initial_state)) = 3"
  by (simp add: ten_checks_def initial_state_def UnitTestFailureCounter_init_def to_int_def
      macro_defs record_failure_def prefix_increment_def simd_all_def simd_equal_def)

theorem exit_status_witness:
  "length ten_checks = 10 \<and> failing ten_checks = 3 \<and>
   to_int (unit_test_failures (run_checks plain_terminal int_printers ten_checks initial_state)) = 3 \<and>
   snd (normal_termination plain_terminal 3
          (run_checks plain_terminal int_printers ten_checks initial_state)) = 1 \<and>
   to_int (unit_test_failures initial_state) = 0 \<and>
   snd (normal_termination plain_terminal 0 initial_state) = 0"
proof -
  have z: "to_int (unit_test_failures initial_state) = 0"
    by (simp add: initial_state_def UnitTestFailureCounter_init_def to_int_def)
  have n: "length ten_checks = 10 \<and> failing ten_checks = 3"
    by (simp add: ten_checks_def failing_def simd_all_def simd_equal_def)
  from exit_status [of "run_checks plain_terminal int_printers ten_checks initial_state" plain_terminal 3]
    ten_checks_count
  have "snd (normal_termination plain_terminal 3
          (run_checks plain_terminal int_printers ten_checks initial_state)) = 1"
    by simp
  moreover from exit_status [of initial_state plain_terminal 0] z
  have "snd (normal_termination plain_terminal 0 initial_state) = 0" by simp
  ultimately show ?thesis using z n ten_checks_count by simp
qed

text \<open>
  The claim as first stated gives the status 0 to every run with a zero count. The
  destructor's branch for a zero count only prints; a \<open>main\<close> that returns 3 after no
  failure ends the process with status 3.
\<close>

theorem zero_count_keeps_main_status:
  "to_int (unit_test_failures initial_state) = 0 \<and>
   snd (normal_termination plain_terminal 3 initial_state) = 3 \<and>
   snd (normal_termination plain_terminal 3 initial_state) \<noteq> 0"
  by (simp add: normal_termination_def destructor_def initial_state_def
      UnitTestFailureCounter_init_def to_int_def)

subsection \<open>Threshold checks\<close>

text \<open>With a tolerance that binds tighter than \<^verbatim>\<open><=\<close>, and operands of an ordered
  ring (integers, rationals: types whose subtraction is exact),
  \<^verbatim>\<open>OIIO_CHECK_EQUAL_THRESH\<close> passes if and only if \<open>\<bar>x - y\<bar> \<le> eps\<close>; a difference
  equal to the tolerance passes.\<close>

lemma equal_thresh_tight:
  fixes x y :: "('a::linordered_idom) expr"
  shows "(OIIO_CHECK_EQUAL_THRESH t shw loc x y (Tight eps) s = s) = (\<bar>val x - val y\<bar> \<le> eps) \<and>
         OIIO_CHECK_EQUAL_THRESH t shw loc x y (Tight \<bar>val x - val y\<bar>) s = s"
  using record_failure_neq by (simp add: OIIO_CHECK_EQUAL_THRESH_def)

text \<open>
  Claim C5. The check is to pass if and only if \<open>\<bar>x - y\<bar> \<le> eps\<close>. With the tolerance
  \<^verbatim>\<open>false ? 0 : 1\<close>, whose value is 1, and the operands 5 and 8, the condition is read as
  \<^verbatim>\<open>(3 <= false) ? 0 : 1\<close>, which is 1: the check passes, and \<open>\<bar>5 - 8\<bar> = 3\<close> is more
  than the tolerance.
\<close>

theorem equal_thresh_conditional_tolerance:
  "tolerance_value (Conditional False 0 1) = (1::int) \<and>
   \<not> \<bar>5 - 8\<bar> \<le> tolerance_value (Conditional False 0 (1::int)) \<and>
   OIIO_CHECK_EQUAL_THRESH plain_terminal decimal_int \<lparr>FILE = ''t.cpp'', LINE = 9\<rparr>
     (Expr ''a'' 5) (Expr ''b'' 8) (Conditional False 0 1) initial_state = initial_state"
  by (simp add: OIIO_CHECK_EQUAL_THRESH_def)

lemma simd_thresh_lanes:
  fixes x y eps :: "('a::linordered_idom) simd"
  assumes "length y = length x" and "length eps = length x"
  shows "simd_all (simd_less (simd_vabs (simd_minus x y)) eps) =
         (\<forall>i<length x. \<bar>x ! i - y ! i\<bar> < eps ! i)"
  using assms
  by (simp add: simd_all_def simd_less_def simd_vabs_def simd_minus_def list_all_length)

text \<open>
  Claim C6. For vectors of one width over an ordered ring,
  \<^verbatim>\<open>OIIO_CHECK_SIMD_EQUAL_THRESH\<close> passes if and only if \<open>\<bar>x - y\<bar> < eps\<close> holds in
  every lane; a lane whose difference equals the tolerance makes the check fail.
\<close>

theorem simd_equal_thresh_strict:
  fixes x y :: "('a::linordered_idom) simd expr"
  assumes "length (val y) = length (val x)" and "length eps = length (val x)"
  shows "(OIIO_CHECK_SIMD_EQUAL_THRESH t shw loc x y eps s = s) =
           (\<forall>i<length (val x). \<bar>val x ! i - val y ! i\<bar> < eps ! i) \<and>
         ((\<exists>i<length (val x). \<bar>val x ! i - val y ! i\<bar> = eps ! i) \<longrightarrow>
            OIIO_CHECK_SIMD_EQUAL_THRESH t shw loc x y eps s \<noteq> s)"
proof -
  have iff: "(OIIO_CHECK_SIMD_EQUAL_THRESH t shw loc x y eps s = s) =
           (\<forall>i<length (val x). \<bar>val x ! i - val y ! i\<bar> < eps ! i)"
    using record_failure_neq simd_thresh_lanes [OF assms]
    by (simp add: OIIO_CHECK_SIMD_EQUAL_THRESH_def)
  have "(\<exists>i<length (val x). \<bar>val x ! i - val y ! i\<bar> = eps ! i) \<Longrightarrow>
          \<not> (\<forall>i<length (val x). \<bar>val x ! i - val y ! i\<bar> < eps ! i)"
    by force
  with iff show ?thesis by blast
qed

theorem simd_equal_thresh_strict_witness:
  "OIIO_CHECK_SIMD_EQUAL_THRESH plain_terminal (vector_output decimal_int [])
     \<lparr>FILE = ''t.cpp'', LINE = 9\<rparr> (Expr ''v'' [1, 5, 3, 4]) (Expr ''w'' [1, 7, 3, 4]) [3, 3, 3, 3]
     initial_state = initial_state \<and>
   OIIO_CHECK_SIMD_EQUAL_THRESH plain_terminal (vector_output decimal_int [])
     \<lparr>FILE = ''t.cpp'', LINE = 9\<rparr> (Expr ''v'' [1, 5, 3, 4]) (Expr ''w'' [1, 7, 3, 4]) [2, 2, 2, 2]
     initial_state \<noteq> initial_state \<and>
   OIIO_CHECK_EQUAL_THRESH plain_terminal decimal_int \<lparr>FILE = ''t.cpp'', LINE = 9\<rparr>
     (Expr ''a'' 5) (Expr ''c'' 7) (Tight 2) initial_state = initial_state"
proof -
  let ?x = "Expr ''v'' [1, 5, 3, 4 :: int]" and ?y = "Expr ''w'' [1, 7, 3, 4 :: int]"
  have len: "length (val ?y) = length (val ?x)" "length [3, 3, 3, 3 :: int] = length (val ?x)"
    "length [2, 2, 2, 2 :: int] = length (val ?x)"
    by simp_all
  have lanes: "\<forall>i<length (val ?x). \<bar>val ?x ! i - val ?y ! i\<bar> < [3, 3, 3, 3] ! i"
    by (auto simp add: less_Suc_eq)
  from simd_equal_thresh_strict [OF len(1) len(2), of plain_terminal "vector_output decimal_int []"
      "\<lparr>FILE = ''t.cpp'', LINE = 9\<rparr>" initial_state] lanes
  have 1: "OIIO_CHECK_SIMD_EQUAL_THRESH plain_terminal (vector_output decimal_int [])
     \<lparr>FILE = ''t.cpp'', LINE = 9\<rparr> ?x ?y [3, 3, 3, 3] initial_state = initial_state"
    by blast
  have "\<exists>i<length (val ?x). \<bar>val ?x ! i - val ?y ! i\<bar> = [2, 2, 2, 2] ! i"
    by (rule exI [of _ 1]) simp
  with simd_equal_thresh_strict [OF len(1) len(3), of plain_terminal "vector_output decimal_int []"
      "\<lparr>FILE = ''t.cpp'', LINE = 9\<rparr>" initial_state]
  have 2: "OIIO_CHECK_SIMD_EQUAL_THRESH plain_terminal (vector_output decimal_int [])
     \<lparr>FILE = ''t.cpp'', LINE = 9\<rparr> ?x ?y [2, 2, 2, 2] initial_state \<noteq> initial_state"
    by blast
  have 3: "OIIO_CHECK_EQUAL_THRESH plain_terminal decimal_int \<lparr>FILE = ''t.cpp'', LINE = 9\<rparr>
     (Expr ''a'' 5) (Expr ''c'' 7) (Tight (2::int)) initial_state = initial_state"
    by (simp add: OIIO_CHECK_EQUAL_THRESH_def)
  from 1 2 3 show ?thesis by blast
qed

subsection \<open>The format of vectors\<close>

lemma join_cons:
  "Strutil_join shw (v # vs) sep = shw v @ concat (map (\<lambda>w. sep @ shw w) vs)"
  by (induction vs arbitrary: v) simp_all

text \<open>
  Claim C9. The output operator for vectors writes an opening brace, the elements
  separated by commas, and a closing brace: \<open>{}\<close> for the empty vector,
  \<open>{v1,v2,...,vn}\<close> otherwise, and \<open>{1,2,3}\<close> for the vector of 1, 2 and 3.
\<close>

theorem vector_output_format:
  "vector_output shw out [] = out @ ''{}'' \<and>
   vector_output shw out (v # vs) =
     out @ ''{'' @ shw v @ concat (map (\<lambda>w. '','' @ shw w) vs) @ ''}'' \<and>
   vector_output decimal_int [] [1, 2, 3] = ''{1,2,3}''"
  by (simp add: vector_output_def join_cons decimal_int_def digit_def)

theorem vector_output_format_witness:
  "vector_output decimal_int ''x = '' [4, 5] = ''x = {4,5}''"
  using vector_output_format [of decimal_int "''x = ''" 4 "[5]"]
  by (simp add: decimal_int_def digit_def)

subsection \<open>Rounding to single precision\<close>

lemma round_magnitude_unfold:
  "round_magnitude a =
     (let e = max (ilog2 a) (- 126); u = 2 powi (e - 23)
      in of_int (round_half_even (a / u)) * u)"
  by (simp add: round_magnitude_def round_magnitude_to_def)

lemma round32_unfold:
  "round32 q =
     (if q = 0 then Finite 0
      else let r = round_magnitude \<bar>q\<bar>
           in if 2 ^ 128 \<le> r then (if 0 < q then PInf else NInf)
              else Finite (sgn q * r))"
  by (simp add: round32_def round_to_def round_magnitude_def)

lemma rhe_bounds: "\<lfloor>r\<rfloor> \<le> round_half_even r \<and> round_half_even r \<le> \<lfloor>r\<rfloor> + 1"
  by (simp add: round_half_even_def Let_def)

lemma rhe_of_int: "round_half_even (of_int n) = n"
  by (simp add: round_half_even_def Let_def)

lemma rhe_mono:
  assumes "z \<le> w"
  shows "round_half_even z \<le> round_half_even w"
proof (cases "\<lfloor>z\<rfloor> < \<lfloor>w\<rfloor>")
  case True
  have "round_half_even z \<le> \<lfloor>z\<rfloor> + 1" using rhe_bounds by blast
  also have "\<dots> \<le> \<lfloor>w\<rfloor>" using True by simp
  also have "\<dots> \<le> round_half_even w" using rhe_bounds by blast
  finally show ?thesis .
next
  case False
  with assms have eq: "\<lfloor>z\<rfloor> = \<lfloor>w\<rfloor>" using floor_mono [OF assms] by simp
  then have "z - of_int \<lfloor>z\<rfloor> \<le> w - of_int \<lfloor>w\<rfloor>" using assms by simp
  then show ?thesis
    unfolding round_half_even_def Let_def eq by auto
qed

lemma rhe_le: "z \<le> of_int n \<Longrightarrow> round_half_even z \<le> n"
  using rhe_mono [of z "of_int n"] by (simp add: rhe_of_int)

lemma rhe_ge: "of_int n \<le> z \<Longrightarrow> n \<le> round_half_even z"
  using rhe_mono [of "of_int n" z] by (simp add: rhe_of_int)

lemma ilog2_bounds:
  assumes "0 < q"
  shows "2 powi (ilog2 q) \<le> q \<and> q < 2 powi (ilog2 q + 1)"
proof (cases "1 \<le> q")
  case True
  define f where "f = \<lfloor>q\<rfloor>"
  have f1: "1 \<le> f" using True by (simp add: f_def)
  then have f0: "0 < f" by simp
  have b1: "1 \<le> bitlen f" using f0 bitlen_eq_zero_iff [of f] bitlen_nonneg [of f] by linarith
  from bitlen_bounds [OF f0] have lo: "2 ^ nat (bitlen f - 1) \<le> f" and hi: "f < 2 ^ nat (bitlen f)"
    by simp_all
  have il: "ilog2 q = bitlen f - 1" using True by (simp add: ilog2_def f_def)
  have "(2::rat) powi (bitlen f - 1) = 2 ^ nat (bitlen f - 1)"
    using b1 by (simp add: power_int_nonneg_exp)
  also have "\<dots> \<le> of_int f" using lo by simp
  also have "\<dots> \<le> q" by (simp add: f_def)
  finally have A: "2 powi (ilog2 q) \<le> q" by (simp add: il)
  have "f + 1 \<le> 2 ^ nat (bitlen f)" using hi by simp
  then have "(of_int (f + 1) :: rat) \<le> of_int (2 ^ nat (bitlen f))"
    by (simp only: of_int_le_iff)
  then have "(of_int (f + 1) :: rat) \<le> 2 ^ nat (bitlen f)"
    by (simp only: of_int_power of_int_numeral)
  moreover have "q < of_int (f + 1)" unfolding f_def by linarith
  ultimately have "q < 2 ^ nat (bitlen f)" by (rule less_le_trans [rotated])
  also have "\<dots> = (2::rat) powi (bitlen f)"
    using b1 by (simp add: power_int_nonneg_exp)
  finally have B: "q < 2 powi (ilog2 q + 1)" by (simp add: il)
  from A B show ?thesis ..
next
  case False
  then have q1: "q < 1" by simp
  define c where "c = \<lceil>1 / q\<rceil>"
  have inv: "1 < 1 / q" using assms q1 by (simp add: field_simps)
  then have c2: "2 \<le> c" unfolding c_def by linarith
  then have c0: "0 < c - 1" by simp
  define k where "k = bitlen (c - 1)"
  have k1: "1 \<le> k" using c0 bitlen_eq_zero_iff [of "c - 1"] bitlen_nonneg [of "c - 1"]
    unfolding k_def by linarith
  from bitlen_bounds [OF c0] have lo: "2 ^ nat (k - 1) \<le> c - 1" and hi: "c - 1 < 2 ^ nat k"
    by (simp_all add: k_def)
  have il: "ilog2 q = - k" using False by (simp add: ilog2_def c_def k_def)
  have "c \<le> 2 ^ nat k" using hi by simp
  then have "(of_int c :: rat) \<le> 2 ^ nat k" by simp
  moreover have "1 / q \<le> of_int c" unfolding c_def by linarith
  ultimately have "1 / q \<le> 2 ^ nat k" by (rule order_trans [rotated])
  then have "1 \<le> 2 ^ nat k * q" using assms by (simp add: field_simps)
  then have "1 / 2 ^ nat k \<le> q" by (simp add: field_simps)
  moreover have "(2::rat) powi (- k) = 1 / 2 ^ nat k"
    using k1 by (simp add: power_int_minus_divide power_int_nonneg_exp)
  ultimately have A: "2 powi (ilog2 q) \<le> q" by (simp add: il)
  have "(of_int (2 ^ nat (k - 1)) :: rat) \<le> of_int (c - 1)"
    using lo by (simp only: of_int_le_iff)
  then have "(2::rat) ^ nat (k - 1) \<le> of_int (c - 1)"
    by (simp only: of_int_power of_int_numeral)
  moreover have "of_int (c - 1) < 1 / q" unfolding c_def by linarith
  ultimately have "(2::rat) ^ nat (k - 1) < 1 / q" by (rule le_less_trans)
  then have "2 ^ nat (k - 1) * q < 1" using assms by (simp add: field_simps)
  then have "q < 1 / 2 ^ nat (k - 1)" by (simp add: field_simps)
  moreover have "(2::rat) powi (- k + 1) = 1 / 2 ^ nat (k - 1)"
  proof -
    have "(2::rat) powi (- k + 1) = 2 powi (- (k - 1))" by simp
    also have "\<dots> = 1 / 2 powi (k - 1)" by (rule power_int_minus_divide)
    also have "\<dots> = 1 / 2 ^ nat (k - 1)" using k1 by (simp add: power_int_nonneg_exp)
    finally show ?thesis .
  qed
  ultimately have B: "q < 2 powi (ilog2 q + 1)" by (simp add: il)
  from A B show ?thesis ..
qed

lemma ilog2_mono:
  assumes "0 < a" and "a \<le> b"
  shows "ilog2 a \<le> ilog2 b"
proof (rule ccontr)
  assume "\<not> ilog2 a \<le> ilog2 b"
  then have "ilog2 b + 1 \<le> ilog2 a" by simp
  then have "(2::rat) powi (ilog2 b + 1) \<le> 2 powi (ilog2 a)"
    by (intro power_int_increasing) simp_all
  also have "\<dots> \<le> a" using ilog2_bounds [OF assms(1)] by blast
  also have "\<dots> \<le> b" by (rule assms(2))
  also have "\<dots> < 2 powi (ilog2 b + 1)" using ilog2_bounds [of b] assms by simp
  finally show False by simp
qed


text \<open>Rounding a magnitude never moves it across a power of two, and within one
  binade it is monotone; so rounding is monotone.\<close>

lemma spacing_pos: "0 < (2::rat) powi e"
  by (simp add: power_int_def)

lemma round_magnitude_nonneg:
  assumes "0 \<le> a"
  shows "0 \<le> round_magnitude a"
proof -
  define u where "u = (2::rat) powi (max (ilog2 a) (- 126) - 23)"
  have u: "0 < u" unfolding u_def by (rule spacing_pos)
  have "of_int 0 \<le> a / u" using assms u by simp
  then have "0 \<le> round_half_even (a / u)" by (rule rhe_ge)
  then show ?thesis using u by (simp add: round_magnitude_unfold Let_def u_def)
qed

lemma round_magnitude_upper:
  assumes "0 < a"
  shows "round_magnitude a \<le> 2 powi (max (ilog2 a) (- 126) + 1)"
proof -
  define e where "e = max (ilog2 a) (- 126)"
  define u where "u = (2::rat) powi (e - 23)"
  have u: "0 < u" unfolding u_def by (rule spacing_pos)
  have split: "(2::rat) powi (e + 1) = 2 ^ 24 * u"
  proof -
    have "e + 1 = 24 + (e - 23)" by simp
    then have "(2::rat) powi (e + 1) = 2 powi (24 + (e - 23))" by (simp only:)
    also have "\<dots> = 2 powi 24 * 2 powi (e - 23)" by (rule power_int_add) simp
    finally show ?thesis by (simp add: u_def)
  qed
  have "a < 2 powi (ilog2 a + 1)" using ilog2_bounds [OF assms] by blast
  also have "\<dots> \<le> 2 powi (e + 1)"
    unfolding e_def by (intro power_int_increasing) simp_all
  finally have "a < 2 ^ 24 * u" by (simp add: split)
  then have "a / u \<le> 2 ^ 24" using u by (simp add: field_simps)
  then have "a / u \<le> of_int (2 ^ 24)" by simp
  then have "round_half_even (a / u) \<le> 2 ^ 24" by (rule rhe_le)
  then have "(of_int (round_half_even (a / u)) :: rat) \<le> of_int (2 ^ 24)"
    by (simp only: of_int_le_iff)
  then have "of_int (round_half_even (a / u)) * u \<le> 2 ^ 24 * u"
    using u by (simp add: mult_right_mono)
  then show ?thesis
    by (simp add: round_magnitude_unfold Let_def e_def [symmetric] u_def [symmetric] split)
qed

lemma round_magnitude_lower:
  assumes "0 < b" and "- 126 \<le> ilog2 b"
  shows "2 powi (ilog2 b) \<le> round_magnitude b"
proof -
  define e where "e = ilog2 b"
  define u where "u = (2::rat) powi (e - 23)"
  have u: "0 < u" unfolding u_def by (rule spacing_pos)
  have m: "max e (- 126) = e" using assms(2) by (simp add: e_def)
  have split: "(2::rat) powi e = 2 ^ 23 * u"
  proof -
    have "e = 23 + (e - 23)" by simp
    then have "(2::rat) powi e = 2 powi (23 + (e - 23))" by (rule arg_cong)
    also have "\<dots> = 2 powi 23 * 2 powi (e - 23)" by (rule power_int_add) simp
    finally show ?thesis by (simp add: u_def)
  qed
  have "2 ^ 23 * u \<le> b" using ilog2_bounds [OF assms(1)] by (simp add: e_def [symmetric] split)
  then have "2 ^ 23 \<le> b / u" using u by (simp add: field_simps)
  then have "of_int (2 ^ 23) \<le> b / u" by simp
  then have "2 ^ 23 \<le> round_half_even (b / u)" by (rule rhe_ge)
  then have "(of_int (2 ^ 23) :: rat) \<le> of_int (round_half_even (b / u))"
    by (simp only: of_int_le_iff)
  then have "2 ^ 23 * u \<le> of_int (round_half_even (b / u)) * u"
    using u by (simp add: mult_right_mono)
  then show ?thesis
    by (simp add: round_magnitude_unfold Let_def m e_def [symmetric] u_def [symmetric] split)
qed

lemma round_magnitude_mono:
  assumes "0 < a" and "a \<le> b"
  shows "round_magnitude a \<le> round_magnitude b"
proof -
  define ea where "ea = max (ilog2 a) (- 126)"
  define eb where "eb = max (ilog2 b) (- 126)"
  have b: "0 < b" using assms by simp
  have le: "ea \<le> eb" unfolding ea_def eb_def using ilog2_mono [OF assms] by simp
  show ?thesis
  proof (cases "ea = eb")
    case True
    define u where "u = (2::rat) powi (ea - 23)"
    have u: "0 < u" unfolding u_def by (rule spacing_pos)
    have "a / u \<le> b / u" using assms(2) u by (simp add: divide_right_mono)
    then have "round_half_even (a / u) \<le> round_half_even (b / u)" by (rule rhe_mono)
    then have "(of_int (round_half_even (a / u)) :: rat) \<le> of_int (round_half_even (b / u))"
      by (simp only: of_int_le_iff)
    then have "of_int (round_half_even (a / u)) * u \<le> of_int (round_half_even (b / u)) * u"
      using u by (simp add: mult_right_mono)
    then show ?thesis
      using True
      by (simp add: round_magnitude_unfold Let_def ea_def [symmetric] eb_def [symmetric] u_def)
  next
    case False
    with le have lt: "ea + 1 \<le> eb" by simp
    then have "- 126 < eb" unfolding ea_def by simp
    then have eb: "eb = ilog2 b" and nb: "- 126 \<le> ilog2 b" unfolding eb_def by simp_all
    have "round_magnitude a \<le> 2 powi (ea + 1)"
      unfolding ea_def by (rule round_magnitude_upper [OF assms(1)])
    also have "\<dots> \<le> 2 powi eb" using lt by (intro power_int_increasing) simp_all
    also have "\<dots> \<le> round_magnitude b"
      unfolding eb by (rule round_magnitude_lower [OF b nb])
    finally show ?thesis .
  qed
qed

text \<open>Rounding is to a nearest value: it moves a magnitude by at most half the spacing
  around it.\<close>

lemma rhe_nearest: "\<bar>of_int (round_half_even r) - r\<bar> \<le> 1 / 2"
proof -
  define d where "d = r - of_int \<lfloor>r\<rfloor>"
  have d: "0 \<le> d" "d < 1" unfolding d_def by linarith+
  have r: "r = of_int \<lfloor>r\<rfloor> + d" by (simp add: d_def)
  have "round_half_even r = (if d < 1 / 2 then \<lfloor>r\<rfloor> else if 1 / 2 < d then \<lfloor>r\<rfloor> + 1
      else if even \<lfloor>r\<rfloor> then \<lfloor>r\<rfloor> else \<lfloor>r\<rfloor> + 1)"
    by (simp add: round_half_even_def Let_def d_def)
  then have "of_int (round_half_even r) - r = - d \<or> of_int (round_half_even r) - r = 1 - d"
    and "d < 1 / 2 \<longrightarrow> of_int (round_half_even r) - r = - d"
    and "1 / 2 < d \<longrightarrow> of_int (round_half_even r) - r = 1 - d"
    using r by (auto split: if_splits)
  with d show ?thesis by (cases "d < 1 / 2"; cases "1 / 2 < d") (auto simp add: abs_if)
qed

lemma round_magnitude_nearest:
  "\<bar>round_magnitude a - a\<bar> \<le> 2 powi (max (ilog2 a) (- 126) - 23) / 2"
proof -
  define u where "u = (2::rat) powi (max (ilog2 a) (- 126) - 23)"
  have u: "0 < u" unfolding u_def by (rule spacing_pos)
  have "round_magnitude a - a = (of_int (round_half_even (a / u)) - a / u) * u"
    using u by (simp add: round_magnitude_unfold Let_def u_def [symmetric] field_simps)
  then have "\<bar>round_magnitude a - a\<bar> = \<bar>of_int (round_half_even (a / u)) - a / u\<bar> * u"
    using u by (simp add: abs_mult)
  also have "\<dots> \<le> 1 / 2 * u"
    using u rhe_nearest [of "a / u"] by (intro mult_right_mono) simp_all
  finally show ?thesis by (simp add: u_def)
qed

lemma round32_pos:
  "0 < q \<Longrightarrow> round32 q =
     (if 2 ^ 128 \<le> round_magnitude q then PInf else Finite (round_magnitude q))"
  by (simp add: round32_unfold Let_def)

lemma round32_neg:
  "q < 0 \<Longrightarrow> round32 q =
     (if 2 ^ 128 \<le> round_magnitude (- q) then NInf else Finite (- round_magnitude (- q)))"
  by (simp add: round32_unfold Let_def)

lemma round32_zero: "round32 0 = Finite 0"
  by (simp add: round32_unfold)

lemma round32_mono:
  assumes "0 \<le> a" and "a \<le> b"
  shows "fle (round32 a) (round32 b)"
proof (cases "a = 0")
  case True
  show ?thesis
  proof (cases "b = 0")
    case True
    with \<open>a = 0\<close> show ?thesis by (simp add: round32_zero)
  next
    case False
    with assms True have b: "0 < b" by simp
    then have "0 \<le> round_magnitude b" by (intro round_magnitude_nonneg) simp
    with b True show ?thesis by (simp add: round32_zero round32_pos)
  qed
next
  case False
  with assms have a: "0 < a" and b: "0 < b" by simp_all
  from round_magnitude_mono [OF a assms(2)] a b show ?thesis
    by (simp add: round32_pos)
qed

lemma std_abs_round32: "std_abs (round32 q) = round32 \<bar>q\<bar>"
proof -
  consider "q = 0" | "0 < q" | "q < 0" by linarith
  then show ?thesis
  proof cases
    case 1
    then show ?thesis by (simp add: round32_zero)
  next
    case 2
    then have "0 \<le> round_magnitude q" by (intro round_magnitude_nonneg) simp
    with 2 show ?thesis by (simp add: round32_pos)
  next
    case 3
    then have "0 \<le> round_magnitude (- q)" by (intro round_magnitude_nonneg) simp
    with 3 show ?thesis by (simp add: round32_neg round32_pos)
  qed
qed

subsection \<open>Approximate equality\<close>

text \<open>The literal \<^verbatim>\<open>0.001f\<close> is \<open>8589935 / 2 ^ 33\<close>, a little more than a thousandth.\<close>

lemma literal_0_001f_value: "literal_0_001f = Finite (8589935 / 8589934592)"
  unfolding literal_0_001f_def by code_simp

lemma std_max_finite: "std_max (Finite a) (Finite b) = Finite (max a b)"
  by (simp add: std_max_def max_def)

lemma equal_approx_computed:
  "equal_approx x y =
     fle (std_abs (to_float (difference x y)))
         (fmul (Finite (8589935 / 8589934592)) (std_max (std_abs (to_float x)) (std_abs (to_float y))))"
  by (simp add: equal_approx_def all_bool_def simd_abs_def simd_max_def literal_0_001f_value)

lemma equal_approx_finite:
  "equal_approx (FloatV (Finite x)) (FloatV (Finite y)) =
     fle (round32 \<bar>x - y\<bar>) (round32 (8589935 / 8589934592 * max \<bar>x\<bar> \<bar>y\<bar>))"
  by (simp add: equal_approx_computed fsub_def std_max_finite std_abs_round32)

lemma equal_approx_zero:
  assumes "is_zero x" and "is_zero y"
  shows "equal_approx x y"
  using assms
  by (cases x; cases y)
     (simp_all add: equal_approx_computed fsub_def dsub_def round32_zero std_max_finite
        round64_def round_to_def)


text \<open>
  Claim C4, as amended. For operands of the types \<^verbatim>\<open>float\<close>, \<^verbatim>\<open>double\<close>, \<^verbatim>\<open>int\<close> and
  \<^verbatim>\<open>unsigned\<close> the check passes if and only if the magnitude of \<^verbatim>\<open>x - y\<close>, computed in
  the operands' common type and converted to \<^verbatim>\<open>float\<close>, is at most the \<^verbatim>\<open>float\<close>
  product of \<^verbatim>\<open>0.001f\<close> and the larger magnitude of the operands converted to
  \<^verbatim>\<open>float\<close>. Two zeros pass, in every type. For \<^verbatim>\<open>float\<close> operands
  \<open>\<bar>x - y\<bar> \<le> 0.001 * max \<bar>x\<bar> \<bar>y\<bar>\<close> is enough to pass, and the check compares the
  rounded \<open>\<bar>x - y\<bar>\<close> with the rounded product.
\<close>

theorem equal_approx_as_computed:
  "equal_approx x y =
     fle (std_abs (to_float (difference x y)))
         (fmul (Finite (8589935 / 8589934592))
               (std_max (std_abs (to_float x)) (std_abs (to_float y)))) \<and>
   (is_zero x \<and> is_zero y \<longrightarrow> equal_approx x y) \<and>
   (\<bar>a - b\<bar> \<le> 1 / 1000 * max \<bar>a\<bar> \<bar>b\<bar> \<longrightarrow> equal_approx (FloatV (Finite a)) (FloatV (Finite b))) \<and>
   equal_approx (FloatV (Finite a)) (FloatV (Finite b)) =
     fle (round32 \<bar>a - b\<bar>) (round32 (8589935 / 8589934592 * max \<bar>a\<bar> \<bar>b\<bar>))"
proof -
  have suff: "equal_approx (FloatV (Finite a)) (FloatV (Finite b))"
    if h: "\<bar>a - b\<bar> \<le> 1 / 1000 * max \<bar>a\<bar> \<bar>b\<bar>"
  proof -
    have "0 \<le> max \<bar>a\<bar> \<bar>b\<bar>" by simp
    then have "1 / 1000 * max \<bar>a\<bar> \<bar>b\<bar> \<le> 8589935 / 8589934592 * max \<bar>a\<bar> \<bar>b\<bar>"
      by (intro mult_right_mono) simp_all
    with h have "\<bar>a - b\<bar> \<le> 8589935 / 8589934592 * max \<bar>a\<bar> \<bar>b\<bar>" by linarith
    then have "fle (round32 \<bar>a - b\<bar>) (round32 (8589935 / 8589934592 * max \<bar>a\<bar> \<bar>b\<bar>))"
      by (intro round32_mono) simp_all
    then show ?thesis by (simp only: equal_approx_finite)
  qed
  from suff equal_approx_zero [of x y] equal_approx_computed [of x y] equal_approx_finite [of a b]
  show ?thesis by blast
qed

theorem equal_approx_as_computed_witness:
  "is_zero (IntV 0) \<and> is_zero (DoubleV (Finite 0)) \<and> equal_approx (IntV 0) (DoubleV (Finite 0)) \<and>
   \<bar>1 - 4198079 / 4194304\<bar> \<le> 1 / 1000 * max \<bar>1\<bar> \<bar>4198079 / 4194304 :: rat\<bar> \<and>
   round32 (10009 / 10000) = Finite (4198079 / 4194304) \<and>
   equal_approx (FloatV (Finite 1)) (FloatV (Finite (4198079 / 4194304))) \<and>
   round32 (1002 / 1000) = Finite (8405385 / 8388608) \<and>
   \<not> equal_approx (FloatV (Finite 1)) (FloatV (Finite (8405385 / 8388608)))"
proof -
  have z: "is_zero (IntV 0) \<and> is_zero (DoubleV (Finite 0))" by simp
  with equal_approx_as_computed [of "IntV 0" "DoubleV (Finite 0)" 1 "4198079 / 4194304"]
  have z': "equal_approx (IntV 0) (DoubleV (Finite 0))" by blast
  have h: "\<bar>1 - 4198079 / 4194304\<bar> \<le> 1 / 1000 * max \<bar>1\<bar> \<bar>4198079 / 4194304 :: rat\<bar>"
    by simp
  with equal_approx_as_computed [of "IntV 0" "DoubleV (Finite 0)" 1 "4198079 / 4194304"]
  have "equal_approx (FloatV (Finite 1)) (FloatV (Finite (4198079 / 4194304)))" by blast
  moreover have "round32 (10009 / 10000) = Finite (4198079 / 4194304)" by code_simp
  moreover have "round32 (1002 / 1000) = Finite (8405385 / 8388608)" by code_simp
  moreover have "\<not> equal_approx (FloatV (Finite 1)) (FloatV (Finite (8405385 / 8388608)))"
    by code_simp
  ultimately show ?thesis using h z z' by blast
qed

text \<open>
  The claim as first stated makes \<open>\<bar>x - y\<bar> \<le> 0.001 * m\<close> necessary and sufficient, for
  all numeric operands. It is not necessary: 15999999 and 15983999, as \<^verbatim>\<open>float\<close> or as
  \<^verbatim>\<open>int\<close> operands, differ by 16000, more than 0.001 times 15999999, and pass, since
  \<^verbatim>\<open>0.001f * 15999999.0f\<close> is 15999.99976 before rounding and \<open>16000\<close> after. It is not
  sufficient: the \<^verbatim>\<open>unsigned\<close> operands 1000000 and 1000001 differ by 1 and fail, since
  \<^verbatim>\<open>1000000u - 1000001u\<close> is \<open>2 ^ 32 - 1\<close>; and the two \<^verbatim>\<open>double\<close> operands below fail
  although their difference is within the tolerance, since the larger one loses
  more in its conversion to \<^verbatim>\<open>float\<close> than \<^verbatim>\<open>0.001f\<close> exceeds a thousandth.
\<close>

theorem equal_approx_differs_from_exact_tolerance:
  "representable 15999999 \<and> representable 15983999 \<and>
   equal_approx (FloatV (Finite 15999999)) (FloatV (Finite 15983999)) \<and>
   equal_approx (IntV 15999999) (IntV 15983999) \<and>
   \<not> (\<bar>15999999 - 15983999\<bar> \<le> 1 / 1000 * max \<bar>15999999\<bar> \<bar>15983999 :: rat\<bar>) \<and>
   \<not> equal_approx (UnsignedV 1000000) (UnsignedV 1000001) \<and>
   \<bar>1000000 - 1000001\<bar> \<le> 1 / 1000 * max \<bar>1000000\<bar> \<bar>1000001 :: rat\<bar> \<and>
   representable64 (134218727 / 134217728) \<and>
   representable64 (562391189387477 / 562949953421312) \<and>
   \<not> equal_approx (DoubleV (Finite (134218727 / 134217728)))
                   (DoubleV (Finite (562391189387477 / 562949953421312))) \<and>
   \<bar>134218727 / 134217728 - 562391189387477 / 562949953421312\<bar>
     \<le> 1 / 1000 * max \<bar>134218727 / 134217728\<bar> \<bar>562391189387477 / 562949953421312 :: rat\<bar>"
proof -
  have "representable 15999999" unfolding representable_def by code_simp
  moreover have "representable 15983999" unfolding representable_def by code_simp
  moreover have "equal_approx (FloatV (Finite 15999999)) (FloatV (Finite 15983999))" by code_simp
  moreover have "equal_approx (IntV 15999999) (IntV 15983999)" by code_simp
  moreover have "\<not> (\<bar>15999999 - 15983999\<bar> \<le> 1 / 1000 * max \<bar>15999999\<bar> \<bar>15983999 :: rat\<bar>)"
    by simp
  moreover have "\<not> equal_approx (UnsignedV 1000000) (UnsignedV 1000001)" by code_simp
  moreover have "\<bar>1000000 - 1000001\<bar> \<le> 1 / 1000 * max \<bar>1000000\<bar> \<bar>1000001 :: rat\<bar>" by simp
  moreover have "representable64 (134218727 / 134217728)"
    unfolding representable64_def by code_simp
  moreover have "representable64 (562391189387477 / 562949953421312)"
    unfolding representable64_def by code_simp
  moreover have "\<not> equal_approx (DoubleV (Finite (134218727 / 134217728)))
                   (DoubleV (Finite (562391189387477 / 562949953421312)))"
    by code_simp
  moreover have "\<bar>134218727 / 134217728 - 562391189387477 / 562949953421312\<bar>
     \<le> 1 / 1000 * max \<bar>134218727 / 134217728\<bar> \<bar>562391189387477 / 562949953421312 :: rat\<bar>"
    by simp
  ultimately show ?thesis by blast
qed

subsection \<open>Symmetry of approximate equality\<close>

lemma round_magnitude_to_nonneg:
  assumes "0 \<le> a"
  shows "0 \<le> round_magnitude_to p emin a"
proof -
  define u where "u = (2::rat) powi (max (ilog2 a) emin - (p - 1))"
  have u: "0 < u" unfolding u_def by simp
  have "of_int 0 \<le> a / u" using assms u by simp
  then have "0 \<le> round_half_even (a / u)" by (rule rhe_ge)
  then show ?thesis using u by (simp add: round_magnitude_to_def Let_def u_def)
qed

lemma std_abs_round_to: "std_abs (round_to p emin emax q) = round_to p emin emax \<bar>q\<bar>"
proof -
  consider "q = 0" | "0 < q" | "q < 0" by linarith
  then show ?thesis
  proof cases
    case 1
    then show ?thesis by (simp add: round_to_def)
  next
    case 2
    then have "0 \<le> round_magnitude_to p emin q" by (intro round_magnitude_to_nonneg) simp
    with 2 show ?thesis by (simp add: round_to_def Let_def)
  next
    case 3
    then have "0 \<le> round_magnitude_to p emin (- q)" by (intro round_magnitude_to_nonneg) simp
    with 3 show ?thesis by (simp add: round_to_def Let_def)
  qed
qed

lemma std_abs_round64: "std_abs (round64 q) = round64 \<bar>q\<bar>"
  by (simp add: round64_def std_abs_round_to)

lemma round32_not_nan: "round32 q \<noteq> NaN"
  by (simp add: round32_def round_to_def Let_def)

lemma ieee_minus_swap:
  assumes "\<And>q. std_abs (rnd q) = rnd \<bar>q\<bar>"
  shows "std_abs (ieee_minus rnd x y) = std_abs (ieee_minus rnd y x)"
proof (cases x; cases y)
  fix a b
  assume "x = Finite a" "y = Finite b"
  moreover have "\<bar>a - b\<bar> = \<bar>b - a\<bar>" by simp
  ultimately show ?thesis by (simp add: assms)
qed simp_all

lemma ieee_minus_nan: "x = NaN \<or> y = NaN \<Longrightarrow> ieee_minus rnd x y = NaN"
  by (cases x; cases y) auto

lemma fsub_swap: "std_abs (fsub x y) = std_abs (fsub y x)"
  unfolding fsub_def by (rule ieee_minus_swap) (rule std_abs_round32)

lemma dsub_swap: "std_abs (dsub x y) = std_abs (dsub y x)"
  unfolding dsub_def by (rule ieee_minus_swap) (rule std_abs_round64)

lemma std_abs_double_to_float: "std_abs (double_to_float v) = double_to_float (std_abs v)"
  by (cases v) (simp_all add: std_abs_round32)

lemma abs_sint_minus: "\<bar>sint (- w)\<bar> = \<bar>sint (w :: 32 word)\<bar>"
proof (cases "sint w = - (2 ^ 31)")
  case True
  have "sint (- w) = signed_take_bit 31 (- sint w)" by (simp add: sint_word_ariths)
  also have "\<dots> = signed_take_bit 31 (2147483648 :: int)" using True by simp
  also have "\<dots> = - 2147483648" by code_simp
  finally show ?thesis using True by simp
next
  case False
  have lo: "- (2 ^ 31) \<le> sint w" using sint_ge [of w] by simp
  have hi: "sint w < 2 ^ 31" using sint_lt [of w] by simp
  have "sint (- w) = signed_take_bit 31 (- sint w)" by (simp add: sint_word_ariths)
  also have "\<dots> = - sint w"
    using lo hi False by (intro signed_take_bit_int_eq_self) simp_all
  finally show ?thesis by simp
qed

lemma abs_sint_swap: "\<bar>sint (a - b)\<bar> = \<bar>sint (b - a :: 32 word)\<bar>"
  using abs_sint_minus [of "a - b"] by simp

lemma to_float_nan: "to_float x = NaN \<Longrightarrow> x = FloatV NaN \<or> x = DoubleV NaN"
proof (cases x)
  case (DoubleV v)
  assume "to_float x = NaN"
  with DoubleV show ?thesis by (cases v) (simp_all add: round32_not_nan)
qed (simp_all add: round32_not_nan)

lemma difference_nan:
  assumes "to_float x = NaN \<or> to_float y = NaN"
  shows "to_float (difference x y) = NaN"
proof -
  from assms have "x = FloatV NaN \<or> x = DoubleV NaN \<or> y = FloatV NaN \<or> y = DoubleV NaN"
    using to_float_nan by blast
  then show ?thesis
    by (cases x; cases y) (auto simp add: fsub_def dsub_def ieee_minus_nan)
qed

lemma difference_swap:
  assumes "\<not> unsigned_common x y"
  shows "std_abs (to_float (difference x y)) = std_abs (to_float (difference y x))"
proof (cases x; cases y)
  fix a b
  assume "x = IntV a" "y = IntV b"
  moreover have "\<bar>rat_of_int (sint (a - b))\<bar> = \<bar>rat_of_int (sint (b - a))\<bar>"
    using abs_sint_swap [of a b] by (simp only: of_int_abs [symmetric])
  ultimately show ?thesis by (simp add: std_abs_round32)
qed (use assms in \<open>simp_all add: std_abs_double_to_float dsub_swap fsub_swap\<close>)

lemma std_max_abs_swap:
  "x \<noteq> NaN \<Longrightarrow> y \<noteq> NaN \<Longrightarrow> std_max (std_abs x) (std_abs y) = std_max (std_abs y) (std_abs x)"
  by (cases x; cases y) (auto simp add: std_max_def)

text \<open>
  Claim C10, as amended. \<^verbatim>\<open>equal_approx\<close> is symmetric whenever the common type of its
  operands is not \<^verbatim>\<open>unsigned\<close>: for \<^verbatim>\<open>float\<close>, \<^verbatim>\<open>double\<close> and \<^verbatim>\<open>int\<close> operands and their
  mixtures with a floating-point type, the infinities and NaN among them.
\<close>

theorem equal_approx_symmetric:
  assumes "\<not> unsigned_common x y"
  shows "equal_approx x y = equal_approx y x"
proof (cases "to_float x = NaN \<or> to_float y = NaN")
  case True
  then have "to_float (difference x y) = NaN" and "to_float (difference y x) = NaN"
    by (auto intro: difference_nan)
  then show ?thesis by (simp add: equal_approx_computed)
next
  case False
  then have "std_max (std_abs (to_float x)) (std_abs (to_float y)) =
      std_max (std_abs (to_float y)) (std_abs (to_float x))"
    by (intro std_max_abs_swap) simp_all
  with difference_swap [OF assms] show ?thesis by (simp add: equal_approx_computed)
qed

theorem equal_approx_symmetric_witness:
  "\<not> unsigned_common (FloatV (Finite 1)) (FloatV (Finite (8405385 / 8388608))) \<and>
   equal_approx (FloatV (Finite 1)) (FloatV (Finite (8405385 / 8388608))) =
     equal_approx (FloatV (Finite (8405385 / 8388608))) (FloatV (Finite 1)) \<and>
   \<not> unsigned_common (IntV 1000000) (IntV 1000001) \<and>
   equal_approx (IntV 1000000) (IntV 1000001) = equal_approx (IntV 1000001) (IntV 1000000) \<and>
   \<not> unsigned_common (UnsignedV 5) (DoubleV PInf) \<and>
   equal_approx (UnsignedV 5) (DoubleV PInf) = equal_approx (DoubleV PInf) (UnsignedV 5)"
proof -
  have a: "\<not> unsigned_common (FloatV (Finite 1)) (FloatV (Finite (8405385 / 8388608)))"
    by simp
  have b: "\<not> unsigned_common (IntV 1000000) (IntV 1000001)" by simp
  have c: "\<not> unsigned_common (UnsignedV 5) (DoubleV PInf)" by simp
  from a b c equal_approx_symmetric [OF a] equal_approx_symmetric [OF b]
    equal_approx_symmetric [OF c]
  show ?thesis by blast
qed

text \<open>
  The claim as first stated covers all numeric operands. With \<^verbatim>\<open>unsigned\<close> operands
  the difference is taken modulo \<open>2 ^ 32\<close> before its magnitude: 1000001 and 1000000
  pass in this order, the difference being 1, and fail in the other, the difference
  being \<open>2 ^ 32 - 1\<close>. The same holds when one operand is an \<^verbatim>\<open>int\<close>, which the
  subtraction converts to \<^verbatim>\<open>unsigned\<close>.
\<close>

theorem equal_approx_unsigned_asymmetric:
  "unsigned_common (UnsignedV 1000001) (UnsignedV 1000000) \<and>
   equal_approx (UnsignedV 1000001) (UnsignedV 1000000) \<and>
   \<not> equal_approx (UnsignedV 1000000) (UnsignedV 1000001) \<and>
   unsigned_common (UnsignedV 1000001) (IntV 1000000) \<and>
   equal_approx (UnsignedV 1000001) (IntV 1000000) \<and>
   \<not> equal_approx (IntV 1000000) (UnsignedV 1000001)"
proof -
  have "equal_approx (UnsignedV 1000001) (UnsignedV 1000000)" by code_simp
  moreover have "\<not> equal_approx (UnsignedV 1000000) (UnsignedV 1000001)" by code_simp
  moreover have "equal_approx (UnsignedV 1000001) (IntV 1000000)" by code_simp
  moreover have "\<not> equal_approx (IntV 1000000) (UnsignedV 1000001)" by code_simp
  ultimately show ?thesis by simp
qed

end
